theory Spec2Isabelle
  imports Main "HOL-Library.Word" "HOL-Library.State_Monad"
begin

unbundle bit_operations_syntax

section \<open>Machine types\<close>

text \<open>
  The C types of \<^verbatim>\<open>src/main.c\<close>: \<^verbatim>\<open>guint8\<close> is an 8-bit word, \<^verbatim>\<open>guint\<close> and
  \<^verbatim>\<open>guint32\<close> are 32-bit words, \<^verbatim>\<open>guint64\<close> and \<^verbatim>\<open>GstClockTime\<close> are 64-bit words.
  Buffer offsets of type \<^verbatim>\<open>gint\<close> are modelled as \<^typ>\<open>int\<close>: every offset the code
  computes lies between \<open>-1\<close> and the buffer size plus four, so no wrap-around occurs for
  buffers shorter than \<open>2^31 - 4\<close> bytes. A byte buffer (\<^verbatim>\<open>GByteArray\<close>, or a pointer with
  its size) is a list of bytes.
\<close>

type_synonym u8 = "8 word"
type_synonym u32 = "32 word"
type_synonym u64 = "64 word"

section \<open>NAL scanner\<close>

text \<open>
  \<^verbatim>\<open>find_startcode(data, size, from)\<close>: the loop \<^verbatim>\<open>for (i = from; i + 3 < size; ++i)\<close>,
  with the loop variable as the third argument.
\<close>

function find_startcode :: "u8 list \<Rightarrow> int \<Rightarrow> int \<Rightarrow> int" where
  "find_startcode data sz i =
     (if i + 3 < sz then
        (if data ! nat i = 0x00 \<and> data ! nat (i + 1) = 0x00 then
           (if data ! nat (i + 2) = 0x01 then i
            else if i + 4 < sz \<and> data ! nat (i + 2) = 0x00 \<and> data ! nat (i + 3) = 0x01 then i
            else find_startcode data sz (i + 1))
         else find_startcode data sz (i + 1))
      else -1)"
  by pat_completeness auto
termination
  by (relation "measure (\<lambda>(data, sz, i). nat (sz - i))") auto

declare find_startcode.simps [simp del]

definition startcode_len_at :: "u8 list \<Rightarrow> int \<Rightarrow> int \<Rightarrow> int" where
  "startcode_len_at data sz pos =
     (if pos + 3 < sz \<and> data ! nat pos = 0x00 \<and> data ! nat (pos + 1) = 0x00 then
        (if data ! nat (pos + 2) = 0x01 then 3
         else if pos + 4 < sz \<and> data ! nat (pos + 2) = 0x00 \<and> data ! nat (pos + 3) = 0x01 then 4
         else 0)
      else 0)"

section \<open>RBSP and EBSP: emulation prevention\<close>

text \<open>
  \<^verbatim>\<open>epb_safe_append(arr, byte)\<close> looks at the last two bytes already in the array. The
  loop \<^verbatim>\<open>for (i = 0; i < size; ++i) epb_safe_append(out, rbsp[i])\<close>, which occurs in
  \<^verbatim>\<open>build_annexb_from_rbsp_and_header\<close> and in \<^verbatim>\<open>build_pic_timing_sei_nal\<close>, is
  \<open>epb_append_all\<close>. The counter \<^verbatim>\<open>zeros\<close> of \<^verbatim>\<open>ebsp_to_rbsp\<close> is a \<^verbatim>\<open>guint\<close>.
\<close>

definition epb_safe_append :: "u8 list \<Rightarrow> u8 \<Rightarrow> u8 list" where
  "epb_safe_append arr byte =
     (let n = length arr in
      if n \<ge> 2 \<and> arr ! (n - 2) = 0x00 \<and> arr ! (n - 1) = 0x00 \<and> byte \<le> 0x03
      then (arr @ [0x03]) @ [byte]
      else arr @ [byte])"

definition epb_append_all :: "u8 list \<Rightarrow> u8 list \<Rightarrow> u8 list" where
  "epb_append_all out rbsp = foldl epb_safe_append out rbsp"

definition build_annexb_from_rbsp_and_header :: "u8 list \<Rightarrow> u8 \<Rightarrow> u8 list" where
  "build_annexb_from_rbsp_and_header rbsp header_byte =
     epb_append_all (epb_safe_append [0x00, 0x00, 0x00, 0x01] header_byte) rbsp"

fun ebsp_to_rbsp_loop :: "u8 list \<Rightarrow> u32 \<Rightarrow> u8 list \<Rightarrow> u8 list" where
  "ebsp_to_rbsp_loop [] zeros rbsp = rbsp"
| "ebsp_to_rbsp_loop (b # ebsp) zeros rbsp =
     (if zeros \<ge> 2 \<and> b = 0x03 then ebsp_to_rbsp_loop ebsp 0 rbsp
      else ebsp_to_rbsp_loop ebsp (if b = 0x00 then zeros + 1 else 0) (rbsp @ [b]))"

definition ebsp_to_rbsp :: "u8 list \<Rightarrow> u8 list" where
  "ebsp_to_rbsp ebsp = ebsp_to_rbsp_loop ebsp 0 []"

text \<open>
  The forbidden pattern of the specification: two bytes \<open>00\<close> followed by a byte at most
  \<open>03\<close>, anywhere in the sequence.
\<close>

fun has_forbidden :: "u8 list \<Rightarrow> bool" where
  "has_forbidden (a # b # c # xs) = ((a = 0x00 \<and> b = 0x00 \<and> c \<le> 0x03) \<or> has_forbidden (b # c # xs))"
| "has_forbidden _ = False"

text \<open>
  The decoder's counter after it has read the array \<open>arr\<close>, as far as the encoder can
  see it in the last two bytes of \<open>arr\<close>.
\<close>

definition epb_sync :: "u8 list \<Rightarrow> u32 \<Rightarrow> bool" where
  "epb_sync arr z \<longleftrightarrow>
     (z = 0 \<and> (arr = [] \<or> arr ! (length arr - 1) \<noteq> 0))
   \<or> (z = 1 \<and> 1 \<le> length arr \<and> arr ! (length arr - 1) = 0 \<and> (2 \<le> length arr \<longrightarrow> arr ! (length arr - 2) \<noteq> 0))
   \<or> (z = 2 \<and> 2 \<le> length arr \<and> arr ! (length arr - 1) = 0 \<and> arr ! (length arr - 2) = 0)"

section \<open>Rewriter configuration, buffers and timecode source\<close>

text \<open>
  \<^verbatim>\<open>SeiConfig\<close> as in the source. A \<^verbatim>\<open>GstBuffer\<close> is modelled by what the rewriter reads
  from it: its bytes, its presentation timestamp (\<^verbatim>\<open>GST_CLOCK_TIME_NONE\<close>, all bits set,
  means that there is none) and the attached \<^verbatim>\<open>GstVideoTimeCodeMeta\<close>, if any.
\<close>

record SeiConfig =
  inject_sei :: bool
  fps_n :: u32
  fps_d :: u32
  prefer_pts :: bool
  verbose :: bool
  last_pts_ns :: u64
  last_sec :: u32
  est_fps :: u32

record GstVideoTimeCode =
  tc_hours :: u32
  tc_minutes :: u32
  tc_seconds :: u32
  tc_frames :: u32
  tc_flags_drop_frame :: bool

record GstBuffer =
  buf_data :: "u8 list"
  buf_pts :: u64
  buf_tcmeta :: "GstVideoTimeCode option"

definition GST_SECOND :: u64 where
  "GST_SECOND = 1000000000"

definition GST_CLOCK_TIME_NONE :: u64 where
  "GST_CLOCK_TIME_NONE = - 1"

definition GST_BUFFER_PTS_IS_VALID :: "GstBuffer \<Rightarrow> bool" where
  "GST_BUFFER_PTS_IS_VALID inbuf \<longleftrightarrow> buf_pts inbuf \<noteq> GST_CLOCK_TIME_NONE"

text \<open>
  The local variables \<^verbatim>\<open>hours, minutes, seconds, frame, have_tc, drop_frame\<close> of
  \<^verbatim>\<open>prepend_h264_sei_timecode\<close>, and the first part of that function, which fills them
  (from the attached timecode, else from the PTS). The drop-frame test of the timecode
  branch is selected by \<^verbatim>\<open>#ifdef GST_VIDEO_TIME_CODE_FLAG_DROP_FRAME\<close>; the header that
  decides it is not part of the repository, so the model takes it as the parameter
  \<open>have_flag_macro\<close>. The block that updates \<^verbatim>\<open>est_fps\<close> and \<^verbatim>\<open>last_pts_ns\<close> is
  \<open>estimate_fps\<close>.
\<close>

record timecode =
  t_hours :: u32
  t_minutes :: u32
  t_seconds :: u32
  t_frame :: u32
  have_tc :: bool
  t_drop_frame :: bool

definition is_drop_frame_rate :: "u32 \<Rightarrow> u32 \<Rightarrow> bool" where
  "is_drop_frame_rate fpsn fpsd \<longleftrightarrow>
     (fpsn = 30000 \<and> fpsd = 1001) \<or> (fpsn = 60000 \<and> fpsd = 1001)"

definition timecode_from_meta :: "bool \<Rightarrow> SeiConfig \<Rightarrow> GstVideoTimeCode \<Rightarrow> timecode" where
  "timecode_from_meta have_flag_macro scfg tc =
     (let fpsn = fps_n scfg;
          fpsd = (if fps_d scfg \<noteq> 0 then fps_d scfg else 1)
      in \<lparr> t_hours = tc_hours tc, t_minutes = tc_minutes tc, t_seconds = tc_seconds tc,
           t_frame = tc_frames tc, have_tc = True,
           t_drop_frame = (if have_flag_macro then tc_flags_drop_frame tc
                           else is_drop_frame_rate fpsn fpsd) \<rparr>)"

definition estimate_fps :: "SeiConfig \<Rightarrow> u64 \<Rightarrow> SeiConfig" where
  "estimate_fps scfg pts =
     (let scfg1 =
        (if last_pts_ns scfg \<noteq> 0 then
           (let delta = pts - last_pts_ns scfg in
            if delta > 0 then
              (let est = (ucast (GST_SECOND div delta) :: u32) in
               if est \<ge> 12 \<and> est \<le> 120 then scfg\<lparr>est_fps := est\<rparr> else scfg)
            else scfg)
         else scfg)
      in scfg1\<lparr>last_pts_ns := pts\<rparr>)"

definition timecode_from_pts :: "SeiConfig \<Rightarrow> u64 \<Rightarrow> timecode \<times> SeiConfig" where
  "timecode_from_pts scfg pts =
     (let sec_total = pts div GST_SECOND;
          h = (ucast ((sec_total div 3600) mod 24) :: u32);
          m = (ucast ((sec_total div 60) mod 60) :: u32);
          s = (ucast (sec_total mod 60) :: u32)
      in if fps_n scfg > 0 \<and> fps_d scfg > 0 then
           (let num = (pts mod GST_SECOND) * ucast (fps_n scfg);
                den = GST_SECOND * ucast (fps_d scfg)
            in (\<lparr> t_hours = h, t_minutes = m, t_seconds = s, t_frame = ucast (num div den),
                  have_tc = True,
                  t_drop_frame = is_drop_frame_rate (fps_n scfg) (fps_d scfg) \<rparr>, scfg))
         else
           (let scfg' = estimate_fps scfg pts;
                fps = (if est_fps scfg' \<noteq> 0 then est_fps scfg' else 25);
                frac = pts mod GST_SECOND
            in (\<lparr> t_hours = h, t_minutes = m, t_seconds = s,
                  t_frame = ucast ((frac * ucast fps) div GST_SECOND),
                  have_tc = True, t_drop_frame = False \<rparr>, scfg')))"

definition no_timecode :: timecode where
  "no_timecode = \<lparr> t_hours = 0, t_minutes = 0, t_seconds = 0, t_frame = 0,
                   have_tc = False, t_drop_frame = False \<rparr>"

definition obtain_timecode :: "bool \<Rightarrow> SeiConfig \<Rightarrow> GstBuffer \<Rightarrow> timecode \<times> SeiConfig" where
  "obtain_timecode have_flag_macro scfg inbuf =
     (case buf_tcmeta inbuf of
        Some tc \<Rightarrow> (timecode_from_meta have_flag_macro scfg tc, scfg)
      | None \<Rightarrow>
          if prefer_pts scfg \<and> GST_BUFFER_PTS_IS_VALID inbuf
          then timecode_from_pts scfg (buf_pts inbuf)
          else (no_timecode, scfg))"

text \<open>
  The estimate as the specification words it: \<open>1s / (pts - last_pts)\<close> clamped to
  \<open>[12, 120]\<close>. The code does not compute this; it is here to be compared with
  \<open>estimate_fps\<close>.
\<close>

definition est_fps_clamped :: "nat \<Rightarrow> nat \<Rightarrow> nat" where
  "est_fps_clamped pts last_pts = max 12 (min 120 (1000000000 div (pts - last_pts)))"

section \<open>Bit writer\<close>

text \<open>
  \<^verbatim>\<open>BitWriter\<close> and its operations. \<^verbatim>\<open>bw_put_bits\<close> is only called with a constant
  number of bits between 1 and 32, which the model takes as a natural number. The two
  \<^verbatim>\<open>while (bw->bits_filled != 0)\<close> loops end only if the counter comes back to zero, so
  they are partial functions: \<open>None\<close> stands for a loop that does not end.
\<close>

record BitWriter =
  bytes :: "u8 list"
  current :: u8
  bits_filled :: int

definition bw_init :: "u8 list \<Rightarrow> BitWriter" where
  "bw_init out = \<lparr> bytes = out, current = 0, bits_filled = 0 \<rparr>"

definition bw_put_bit :: "BitWriter \<Rightarrow> u32 \<Rightarrow> BitWriter" where
  "bw_put_bit bw b =
     (let cur = (ucast (push_bit 1 (ucast (current bw) :: u32) OR (b AND 1)) :: u8);
          filled = bits_filled bw + 1
      in if filled = 8
         then \<lparr> bytes = bytes bw @ [cur], current = 0, bits_filled = 0 \<rparr>
         else \<lparr> bytes = bytes bw, current = cur, bits_filled = filled \<rparr>)"

definition bw_put_bits :: "BitWriter \<Rightarrow> u32 \<Rightarrow> nat \<Rightarrow> BitWriter" where
  "bw_put_bits bw v num_bits =
     foldl (\<lambda>w i. bw_put_bit w (drop_bit i v AND 1)) bw (rev [0..<num_bits])"

partial_function (option) bw_zero_fill :: "BitWriter \<Rightarrow> BitWriter option" where
  "bw_zero_fill bw =
     (if bits_filled bw \<noteq> 0 then bw_zero_fill (bw_put_bit bw 0) else Some bw)"

definition bw_put_rbsp_trailing_bits :: "BitWriter \<Rightarrow> BitWriter option" where
  "bw_put_rbsp_trailing_bits bw = bw_zero_fill (bw_put_bit bw 1)"

partial_function (option) bw_flush_loop :: "BitWriter \<Rightarrow> BitWriter option" where
  "bw_flush_loop bw =
     (if bits_filled bw \<noteq> 0 then
        (let cur = push_bit 1 (current bw);
             filled = bits_filled bw + 1
         in if filled = 8
            then Some \<lparr> bytes = bytes bw @ [cur], current = 0, bits_filled = 0 \<rparr>
            else bw_flush_loop \<lparr> bytes = bytes bw, current = cur, bits_filled = filled \<rparr>)
      else Some bw)"

definition bw_flush_zero_align :: "BitWriter \<Rightarrow> BitWriter option" where
  "bw_flush_zero_align bw = (if bits_filled bw > 0 then bw_flush_loop bw else Some bw)"

section \<open>Picture Timing SEI builder\<close>

text \<open>
  \<^verbatim>\<open>build_pic_timing_sei_nal\<close> in two steps: \<open>pic_timing_payload_bits\<close> is the bit writer
  after the last \<^verbatim>\<open>bw_put_bits\<close> and before \<^verbatim>\<open>bw_flush_zero_align\<close>; the rest assembles
  the NAL. \<open>put_payload_size\<close> is the loop \<^verbatim>\<open>while (total >= 255)\<close> with the
  \<^verbatim>\<open>epb_safe_append\<close> of the last size byte.
\<close>

definition pic_timing_payload_bits :: "bool \<Rightarrow> u32 \<Rightarrow> u32 \<Rightarrow> u32 \<Rightarrow> u32 \<Rightarrow> bool \<Rightarrow> BitWriter" where
  "pic_timing_payload_bits drop_frame frame seconds minutes hours include_time_offset =
     (let bw = bw_init [];
          bw = bw_put_bits bw 0 4;
          bw = bw_put_bits bw 1 1;
          bw = bw_put_bits bw 0 2;
          bw = bw_put_bits bw 0 1;
          bw = bw_put_bits bw 0 5;
          bw = bw_put_bits bw 1 1;
          bw = bw_put_bits bw 0 1;
          bw = bw_put_bits bw (if drop_frame then 1 else 0) 1;
          bw = bw_put_bits bw (frame AND 0xFF) 8;
          bw = bw_put_bits bw (seconds AND 0x3F) 6;
          bw = bw_put_bits bw (minutes AND 0x3F) 6;
          bw = bw_put_bits bw (hours AND 0x1F) 5
      in if include_time_offset then bw_put_bits bw 0 24 else bw)"

function put_payload_size :: "u8 list \<Rightarrow> u32 \<Rightarrow> u8 list" where
  "put_payload_size sei tot =
     (if tot \<ge> 255 then put_payload_size (epb_safe_append sei 255) (tot - 255)
      else epb_safe_append sei (ucast tot))"
  by pat_completeness auto
termination
  by (relation "measure (\<lambda>(sei, tot). unat tot)") (auto simp: unat_sub word_le_nat_alt)

declare put_payload_size.simps [simp del]

definition build_pic_timing_sei_nal :: "bool \<Rightarrow> u32 \<Rightarrow> u32 \<Rightarrow> u32 \<Rightarrow> u32 \<Rightarrow> bool \<Rightarrow> u8 list option" where
  "build_pic_timing_sei_nal drop_frame frame seconds minutes hours include_time_offset =
     (case bw_flush_zero_align
             (pic_timing_payload_bits drop_frame frame seconds minutes hours include_time_offset) of
        None \<Rightarrow> None
      | Some bw \<Rightarrow>
          (let payload = bytes bw;
               sei = [0x00, 0x00, 0x00, 0x01] @ [0x06];
               sei = epb_safe_append sei 1;
               sei = put_payload_size sei (of_nat (length payload));
               sei = epb_append_all sei payload;
               sei = epb_safe_append sei 0x80
           in Some sei))"

declare bw_flush_loop.simps [code]
declare bw_zero_fill.simps [code]

text \<open>
  \<^verbatim>\<open>SpsVuiInfo\<close> and \<^verbatim>\<open>build_pic_timing_sei_nal_from_sps\<close>; \<open>include_time_offset_of\<close>
  is the local variable \<^verbatim>\<open>include_time_offset\<close> of the latter.
\<close>

record SpsVuiInfo =
  vui_present :: bool
  pic_struct_present_flag :: bool
  cpb_dpb_delays_present_flag :: bool
  cpb_removal_delay_length :: u32
  dpb_output_delay_length :: u32
  time_offset_length :: u32
  timing_info_present_flag :: bool
  num_units_in_tick :: u32
  time_scale :: u32
  fixed_frame_rate_flag :: bool

definition include_time_offset_of :: "SpsVuiInfo \<Rightarrow> bool" where
  "include_time_offset_of info \<longleftrightarrow> cpb_dpb_delays_present_flag info \<and> time_offset_length info > 0"

definition build_pic_timing_sei_nal_from_sps ::
    "SpsVuiInfo \<Rightarrow> bool \<Rightarrow> u32 \<Rightarrow> u32 \<Rightarrow> u32 \<Rightarrow> u32 \<Rightarrow> u8 list option" where
  "build_pic_timing_sei_nal_from_sps info drop_frame frame seconds minutes hours =
     build_pic_timing_sei_nal drop_frame frame seconds minutes hours (include_time_offset_of info)"

section \<open>Bit reader\<close>

text \<open>
  The reader state is the bit position of the \<^verbatim>\<open>BitReader\<close> together with the flag
  \<^verbatim>\<open>ok\<close> that every read function receives by pointer; the data being read is a
  parameter. Reads are computations in the state monad. \<^verbatim>\<open>br_read_bit\<close> sets the flag
  to false on a read past the end and does not clear it; \<^verbatim>\<open>br_read_bits\<close> returns 0 as
  soon as the flag is false after a bit has been read.
\<close>

type_synonym rstate = "nat \<times> bool"

definition br_read_bit :: "u8 list \<Rightarrow> (rstate, u32) state" where
  "br_read_bit data = State (\<lambda>(bitpos, ok).
     if bitpos \<ge> length data * 8 then (0, (bitpos, False))
     else (let byte_index = drop_bit 3 bitpos;
               shift = 7 - (bitpos AND 7);
               b = drop_bit shift (ucast (data ! byte_index) :: u32) AND 1
           in (b, (bitpos + 1, ok))))"

definition br_ok :: "(rstate, bool) state" where
  "br_ok = State (\<lambda>(bitpos, ok). (ok, (bitpos, ok)))"

fun br_read_bits_loop :: "u8 list \<Rightarrow> nat \<Rightarrow> u32 \<Rightarrow> (rstate, u32) state" where
  "br_read_bits_loop data 0 val = State_Monad.return val"
| "br_read_bits_loop data (Suc n) val = do {
     b \<leftarrow> br_read_bit data;
     ok \<leftarrow> br_ok;
     if \<not> ok then State_Monad.return 0
     else br_read_bits_loop data n (push_bit 1 val OR b)
   }"

definition br_read_bits :: "u8 list \<Rightarrow> nat \<Rightarrow> (rstate, u32) state" where
  "br_read_bits data nbits = br_read_bits_loop data nbits 0"

section \<open>Reading a Picture Timing SEI\<close>

text \<open>
  The repository builds Picture Timing SEI messages and never reads them. To state what
  "decoding the payload" yields, \<open>decode_pic_timing_sei_nal\<close> reads a NAL back: it
  removes the start code and the header byte \<open>06\<close>, undoes emulation prevention with
  \<open>ebsp_to_rbsp\<close>, and reads \<open>payloadType\<close>, \<open>payloadSize\<close> and the fields of the payload
  layout of the specification (section 4.F), in that order, with the source's bit reader.
\<close>

record pic_timing =
  payload_type :: u32
  payload_size :: u32
  pic_struct :: u32
  clock_timestamp_flag :: u32
  ct_type :: u32
  nuit_field_based_flag :: u32
  counting_type :: u32
  full_timestamp_flag :: u32
  discontinuity_flag :: u32
  cnt_dropped_flag :: u32
  n_frames :: u32
  seconds_value :: u32
  minutes_value :: u32
  hours_value :: u32

definition read_pic_timing :: "u8 list \<Rightarrow> (rstate, pic_timing) state" where
  "read_pic_timing rbsp = do {
     pt \<leftarrow> br_read_bits rbsp 8;
     ps \<leftarrow> br_read_bits rbsp 8;
     pst \<leftarrow> br_read_bits rbsp 4;
     ctf \<leftarrow> br_read_bits rbsp 1;
     ct \<leftarrow> br_read_bits rbsp 2;
     nuit \<leftarrow> br_read_bits rbsp 1;
     cnt \<leftarrow> br_read_bits rbsp 5;
     full \<leftarrow> br_read_bits rbsp 1;
     disc \<leftarrow> br_read_bits rbsp 1;
     dropped \<leftarrow> br_read_bits rbsp 1;
     nf \<leftarrow> br_read_bits rbsp 8;
     sv \<leftarrow> br_read_bits rbsp 6;
     mv \<leftarrow> br_read_bits rbsp 6;
     hv \<leftarrow> br_read_bits rbsp 5;
     State_Monad.return \<lparr> payload_type = pt, payload_size = ps, pic_struct = pst,
       clock_timestamp_flag = ctf, ct_type = ct, nuit_field_based_flag = nuit,
       counting_type = cnt, full_timestamp_flag = full, discontinuity_flag = disc,
       cnt_dropped_flag = dropped, n_frames = nf, seconds_value = sv, minutes_value = mv,
       hours_value = hv \<rparr>
   }"

definition decode_pic_timing_sei_nal :: "u8 list \<Rightarrow> pic_timing option" where
  "decode_pic_timing_sei_nal nal =
     (if take 5 nal = [0x00, 0x00, 0x00, 0x01, 0x06] then
        (case run_state (read_pic_timing (ebsp_to_rbsp (drop 5 nal))) (0, True) of
           (pt, (bitpos, ok)) \<Rightarrow> if ok then Some pt else None)
      else None)"

section \<open>Bit sequences\<close>

text \<open>
  Abstraction functions for the proofs: the bits of a word, most significant first; the
  bits of a byte sequence; the bits a writer holds; the writer's invariant; the value of a
  bit sequence read most significant bit first.
\<close>

definition bits_word :: "u32 \<Rightarrow> bool list \<Rightarrow> u32" where
  "bits_word val bs = foldl (\<lambda>v b. push_bit 1 v OR of_bool b) val bs"

definition word_bits :: "nat \<Rightarrow> 'a::len word \<Rightarrow> bool list" where
  "word_bits n w = map (bit w) (rev [0..<n])"

definition bits_of_bytes :: "u8 list \<Rightarrow> bool list" where
  "bits_of_bytes bs = concat (map (word_bits 8) bs)"

definition bw_bits :: "BitWriter \<Rightarrow> bool list" where
  "bw_bits bw = bits_of_bytes (bytes bw) @ word_bits (nat (bits_filled bw)) (current bw)"

definition bw_inv :: "BitWriter \<Rightarrow> bool" where
  "bw_inv bw \<longleftrightarrow> 0 \<le> bits_filled bw \<and> bits_filled bw < 8"

section \<open>Exp-Golomb reader\<close>

text \<open>
  \<^verbatim>\<open>br_read_ue\<close>: \<open>ue_leading_zeros\<close> is its \<^verbatim>\<open>while (br_read_bit(br, ok) == 0)\<close> loop,
  which returns \<open>None\<close> where the C function returns 0 from inside the loop (a failed
  read, or more than 31 zeros, which also clears the flag) and the number of zeros
  otherwise. The counter never exceeds 32 and is a natural number here.
\<close>

function ue_leading_zeros :: "u8 list \<Rightarrow> nat \<Rightarrow> rstate \<Rightarrow> nat option \<times> rstate" where
  "ue_leading_zeros data zeros s =
     (case run_state (br_read_bit data) s of
        (b, (bitpos, ok)) \<Rightarrow>
          if b = 0 then
            (if \<not> ok then (None, (bitpos, ok))
             else if zeros + 1 > 31 then (None, (bitpos, False))
             else ue_leading_zeros data (zeros + 1) (bitpos, ok))
          else (Some zeros, (bitpos, ok)))"
  by pat_completeness auto
termination
  by (relation "measure (\<lambda>(data, zeros, s). 32 - zeros)") auto

declare ue_leading_zeros.simps [simp del]

definition br_read_ue :: "u8 list \<Rightarrow> (rstate, u32) state" where
  "br_read_ue data = do {
     z \<leftarrow> State (ue_leading_zeros data 0);
     case z of
       None \<Rightarrow> State_Monad.return 0
     | Some zeros \<Rightarrow>
         if zeros = 0 then State_Monad.return 0
         else do {
           suffix \<leftarrow> br_read_bits data zeros;
           State_Monad.return (push_bit zeros 1 - 1 + suffix)
         }
   }"

text \<open>
  \<open>br_read_ue_times data n\<close> is a loop that calls \<^verbatim>\<open>br_read_ue\<close> \<open>n\<close> times and drops the
  values, as in \<^verbatim>\<open>for (guint i = 0; i < num_ref; ++i) br_read_ue(&br, &ok);\<close>.
\<close>

primrec br_read_ue_times :: "u8 list \<Rightarrow> nat \<Rightarrow> (rstate, unit) state" where
  "br_read_ue_times data 0 = State_Monad.return ()"
| "br_read_ue_times data (Suc n) = do { _ \<leftarrow> br_read_ue data; br_read_ue_times data n }"

section \<open>SPS and VUI parser\<close>

text \<open>
  The walk over the SPS up to \<^verbatim>\<open>vui_parameters_present_flag\<close> is written three times in
  the source, in \<^verbatim>\<open>patch_sps_pic_struct_flag_to_one\<close>, in
  \<^verbatim>\<open>patch_sps_pic_struct_and_timing\<close> and in \<^verbatim>\<open>parse_sps_vui_info_from_rbsp\<close>. The three
  copies differ in one place only, the way a scaling list that is present is skipped: the
  two patch functions read \<^verbatim>\<open>sizeOfScalingList\<close> exp-Golomb values
  (\<open>skip_scaling_list_fixed\<close>), the parser runs the delta loop with \<^verbatim>\<open>lastScale\<close> and
  \<^verbatim>\<open>nextScale\<close> and reads a value only while \<^verbatim>\<open>nextScale != 0\<close>
  (\<open>skip_scaling_list_delta\<close>). \<open>sps_walk_to_vui\<close> is the walk, with the skipping as a
  parameter. The conditional statements \<^verbatim>\<open>if (flag) read;\<close> are \<open>when_set\<close>.

  \<^verbatim>\<open>lastScale\<close> and \<^verbatim>\<open>nextScale\<close> are \<^verbatim>\<open>gint\<close>; they are integers here, \<open>c_rem\<close> is
  the remainder of C, which takes the sign of the dividend, and \<open>se_of_ue\<close> the mapping
  to a signed value with its casts to \<^verbatim>\<open>gint\<close>. The sum \<^verbatim>\<open>lastScale + se + 256\<close> overflows
  a \<^verbatim>\<open>gint\<close> for deltas near \<open>2^31\<close>, which is undefined in C and not modelled.

  The source reads \<^verbatim>\<open>rbsp[0]\<close> for the profile. On an empty RBSP the byte array holds a
  null pointer, so the functions that take an RBSP return \<open>None\<close> for it, as for every
  outcome that is not a normal return.
\<close>

definition c_rem :: "int \<Rightarrow> int \<Rightarrow> int" where
  "c_rem a b = (if a < 0 then - ((- a) mod b) else a mod b)"

definition se_of_ue :: "u32 \<Rightarrow> int" where
  "se_of_ue ue = (if ue AND 1 \<noteq> 0 then sint ((ue + 1) div 2) else - sint (ue div 2))"

primrec scaling_list_deltas :: "u8 list \<Rightarrow> nat \<Rightarrow> int \<Rightarrow> int \<Rightarrow> (rstate, unit) state" where
  "scaling_list_deltas data 0 = (\<lambda>lastScale nextScale. State_Monad.return ())"
| "scaling_list_deltas data (Suc n) = (\<lambda>lastScale nextScale. do {
     nextScale' \<leftarrow> (if nextScale \<noteq> 0 then do {
                      ue \<leftarrow> br_read_ue data;
                      State_Monad.return (c_rem (lastScale + se_of_ue ue + 256) 256)
                    } else State_Monad.return nextScale);
     scaling_list_deltas data n (if nextScale' = 0 then lastScale else nextScale') nextScale'
   })"

definition skip_scaling_list_fixed :: "u8 list \<Rightarrow> nat \<Rightarrow> (rstate, unit) state" where
  "skip_scaling_list_fixed data sizeOfScalingList = br_read_ue_times data sizeOfScalingList"

definition skip_scaling_list_delta :: "u8 list \<Rightarrow> nat \<Rightarrow> (rstate, unit) state" where
  "skip_scaling_list_delta data sizeOfScalingList = scaling_list_deltas data sizeOfScalingList 8 8"

primrec scaling_lists :: "(nat \<Rightarrow> (rstate, unit) state) \<Rightarrow> u8 list \<Rightarrow> nat list \<Rightarrow> (rstate, unit) state" where
  "scaling_lists skip data [] = State_Monad.return ()"
| "scaling_lists skip data (i # rest) = do {
     f \<leftarrow> br_read_bits data 1;
     _ \<leftarrow> (if f \<noteq> 0 then skip (if i < 6 then 16 else 64) else State_Monad.return ());
     scaling_lists skip data rest
   }"

definition is_high_profile :: "u8 \<Rightarrow> bool" where
  "is_high_profile profile_idc \<longleftrightarrow>
     profile_idc = 100 \<or> profile_idc = 110 \<or> profile_idc = 122 \<or> profile_idc = 244
   \<or> profile_idc = 44 \<or> profile_idc = 83 \<or> profile_idc = 86 \<or> profile_idc = 118
   \<or> profile_idc = 128 \<or> profile_idc = 138 \<or> profile_idc = 139 \<or> profile_idc = 134
   \<or> profile_idc = 135"

definition when_set :: "bool \<Rightarrow> (rstate, 'a) state \<Rightarrow> (rstate, unit) state" where
  "when_set c m = (if c then do { _ \<leftarrow> m; State_Monad.return () } else State_Monad.return ())"

definition sps_walk_to_vui :: "(nat \<Rightarrow> (rstate, unit) state) \<Rightarrow> u8 list \<Rightarrow> (rstate, unit) state" where
  "sps_walk_to_vui skip rbsp = do {
     _ \<leftarrow> br_read_bits rbsp 8;
     _ \<leftarrow> br_read_bits rbsp 8;
     _ \<leftarrow> br_read_bits rbsp 8;
     _ \<leftarrow> br_read_ue rbsp;
     _ \<leftarrow> when_set (is_high_profile (rbsp ! 0)) (do {
       chroma_format_idc \<leftarrow> br_read_ue rbsp;
       _ \<leftarrow> when_set (chroma_format_idc = 3) (br_read_bits rbsp 1);
       _ \<leftarrow> br_read_ue rbsp;
       _ \<leftarrow> br_read_ue rbsp;
       _ \<leftarrow> br_read_bits rbsp 1;
       seq_scaling_matrix_present_flag \<leftarrow> br_read_bits rbsp 1;
       when_set (seq_scaling_matrix_present_flag \<noteq> 0)
         (scaling_lists skip rbsp [0..<(if chroma_format_idc \<noteq> 3 then 8 else 12)])
     });
     _ \<leftarrow> br_read_ue rbsp;
     pic_order_cnt_type \<leftarrow> br_read_ue rbsp;
     _ \<leftarrow> (if pic_order_cnt_type = 0 then when_set True (br_read_ue rbsp)
          else when_set (pic_order_cnt_type = 1) (do {
            _ \<leftarrow> br_read_bits rbsp 1;
            _ \<leftarrow> br_read_ue rbsp;
            _ \<leftarrow> br_read_ue rbsp;
            num_ref \<leftarrow> br_read_ue rbsp;
            br_read_ue_times rbsp (unat num_ref)
          }));
     _ \<leftarrow> br_read_ue rbsp;
     _ \<leftarrow> br_read_bits rbsp 1;
     _ \<leftarrow> br_read_ue rbsp;
     _ \<leftarrow> br_read_ue rbsp;
     frame_mbs_only_flag \<leftarrow> br_read_bits rbsp 1;
     _ \<leftarrow> when_set (frame_mbs_only_flag = 0) (br_read_bits rbsp 1);
     _ \<leftarrow> br_read_bits rbsp 1;
     frame_cropping_flag \<leftarrow> br_read_bits rbsp 1;
     when_set (frame_cropping_flag \<noteq> 0) (do {
       _ \<leftarrow> br_read_ue rbsp;
       _ \<leftarrow> br_read_ue rbsp;
       _ \<leftarrow> br_read_ue rbsp;
       br_read_ue rbsp
     })
   }"

primrec hrd_cpb_entries :: "u8 list \<Rightarrow> nat \<Rightarrow> (rstate, unit) state" where
  "hrd_cpb_entries data 0 = State_Monad.return ()"
| "hrd_cpb_entries data (Suc n) = do {
     _ \<leftarrow> br_read_ue data;
     _ \<leftarrow> br_read_ue data;
     _ \<leftarrow> br_read_bits data 1;
     hrd_cpb_entries data n
   }"

definition hrd_parameters :: "u8 list \<Rightarrow> (rstate, u32 \<times> u32 \<times> u32) state" where
  "hrd_parameters data = do {
     cpb_cnt_minus1 \<leftarrow> br_read_ue data;
     _ \<leftarrow> br_read_bits data 4;
     _ \<leftarrow> br_read_bits data 4;
     _ \<leftarrow> hrd_cpb_entries data (Suc (unat cpb_cnt_minus1));
     _ \<leftarrow> br_read_bits data 5;
     cpb_removal_delay_length_minus1 \<leftarrow> br_read_bits data 5;
     dpb_output_delay_length_minus1 \<leftarrow> br_read_bits data 5;
     tol \<leftarrow> br_read_bits data 5;
     State_Monad.return (cpb_removal_delay_length_minus1, dpb_output_delay_length_minus1, tol)
   }"

definition vui_walk_to_timing :: "u8 list \<Rightarrow> (rstate, unit) state" where
  "vui_walk_to_timing data = do {
     aspect_ratio_info_present_flag \<leftarrow> br_read_bits data 1;
     _ \<leftarrow> when_set (aspect_ratio_info_present_flag \<noteq> 0) (do {
       aspect_ratio_idc \<leftarrow> br_read_bits data 8;
       when_set (aspect_ratio_idc = 255) (do { _ \<leftarrow> br_read_bits data 16; br_read_bits data 16 })
     });
     overscan_info_present_flag \<leftarrow> br_read_bits data 1;
     _ \<leftarrow> when_set (overscan_info_present_flag \<noteq> 0) (br_read_bits data 1);
     video_signal_type_present_flag \<leftarrow> br_read_bits data 1;
     _ \<leftarrow> when_set (video_signal_type_present_flag \<noteq> 0) (do {
       _ \<leftarrow> br_read_bits data 3;
       colour_description_present_flag \<leftarrow> br_read_bits data 1;
       when_set (colour_description_present_flag \<noteq> 0) (do {
         _ \<leftarrow> br_read_bits data 8;
         _ \<leftarrow> br_read_bits data 8;
         br_read_bits data 8
       })
     });
     chroma_loc_info_present_flag \<leftarrow> br_read_bits data 1;
     when_set (chroma_loc_info_present_flag \<noteq> 0) (do { _ \<leftarrow> br_read_ue data; br_read_ue data })
   }"

definition default_sps_info :: "bool \<Rightarrow> SpsVuiInfo" where
  "default_sps_info vp =
     \<lparr> vui_present = vp, pic_struct_present_flag = True, cpb_dpb_delays_present_flag = False,
       cpb_removal_delay_length = 0, dpb_output_delay_length = 0, time_offset_length = 0,
       timing_info_present_flag = False, num_units_in_tick = 0, time_scale = 0,
       fixed_frame_rate_flag = False \<rparr>"

definition parse_sps_vui :: "u8 list \<Rightarrow> (rstate, bool \<times> SpsVuiInfo) state" where
  "parse_sps_vui rbsp = do {
     _ \<leftarrow> sps_walk_to_vui (skip_scaling_list_delta rbsp) rbsp;
     vui_parameters_present_flag \<leftarrow> br_read_bits rbsp 1;
     ok \<leftarrow> br_ok;
     if vui_parameters_present_flag = 0 \<or> \<not> ok
     then State_Monad.return (True, default_sps_info (vui_parameters_present_flag \<noteq> 0))
     else do {
       _ \<leftarrow> vui_walk_to_timing rbsp;
       timing_flag \<leftarrow> br_read_bits rbsp 1;
       timing \<leftarrow> (if timing_flag \<noteq> 0 then do {
                    nuit \<leftarrow> br_read_bits rbsp 32;
                    ts \<leftarrow> br_read_bits rbsp 32;
                    ffr \<leftarrow> br_read_bits rbsp 1;
                    State_Monad.return (True, nuit, ts, ffr \<noteq> 0)
                  } else State_Monad.return (False, 0, 0, False));
       nal_hrd_parameters_present_flag \<leftarrow> br_read_bits rbsp 1;
       lens \<leftarrow> (if nal_hrd_parameters_present_flag \<noteq> 0 then hrd_parameters rbsp
                else State_Monad.return (23, 23, 24));
       vcl_hrd_parameters_present_flag \<leftarrow> br_read_bits rbsp 1;
       lens \<leftarrow> (if vcl_hrd_parameters_present_flag \<noteq> 0 then hrd_parameters rbsp
                else State_Monad.return lens);
       _ \<leftarrow> when_set (nal_hrd_parameters_present_flag \<noteq> 0 \<or> vcl_hrd_parameters_present_flag \<noteq> 0)
              (br_read_bits rbsp 1);
       pic_struct_flag \<leftarrow> br_read_bits rbsp 1;
       ok \<leftarrow> br_ok;
       State_Monad.return (ok,
         (case (timing, lens) of ((tpresent, nuit, ts, ffr), (cpb_m1, dpb_m1, tol)) \<Rightarrow>
           \<lparr> vui_present = True,
             pic_struct_present_flag = (pic_struct_flag \<noteq> 0),
             cpb_dpb_delays_present_flag =
               (nal_hrd_parameters_present_flag \<noteq> 0 \<or> vcl_hrd_parameters_present_flag \<noteq> 0),
             cpb_removal_delay_length = cpb_m1 + 1,
             dpb_output_delay_length = dpb_m1 + 1,
             time_offset_length =
               (if nal_hrd_parameters_present_flag \<noteq> 0 \<or> vcl_hrd_parameters_present_flag \<noteq> 0
                then tol else 0),
             timing_info_present_flag = tpresent, num_units_in_tick = nuit, time_scale = ts,
             fixed_frame_rate_flag = ffr \<rparr>))
     }
   }"

definition parse_sps_vui_info_from_rbsp :: "u8 list \<Rightarrow> (bool \<times> SpsVuiInfo) option" where
  "parse_sps_vui_info_from_rbsp rbsp =
     (if rbsp = [] then None
      else Some (fst (run_state (parse_sps_vui rbsp) (0, True))))"

section \<open>SPS patcher\<close>

text \<open>
  Both patch functions return a pointer that may be \<^verbatim>\<open>NULL\<close>: the result is
  \<open>Some None\<close> for \<^verbatim>\<open>NULL\<close>, \<open>Some (Some nal)\<close> for an array, and \<open>None\<close> when the
  function does not return normally (the read of \<^verbatim>\<open>rbsp->data[0]\<close> on an empty RBSP, the
  write of the flag past the end of the RBSP, or a loop that does not end). \<open>copy_bits\<close>
  is the loop that copies the bits in front of \<^verbatim>\<open>vui_parameters_present_flag\<close>;
  \<open>vui_walk_to_pic_struct\<close> is the walk from that flag to \<^verbatim>\<open>pic_struct_present_flag\<close>.
\<close>

fun copy_bits :: "u8 list \<Rightarrow> nat \<Rightarrow> rstate \<Rightarrow> BitWriter \<Rightarrow> BitWriter option" where
  "copy_bits data 0 s bw = Some bw"
| "copy_bits data (Suc n) s bw =
     (case run_state (br_read_bit data) s of
        (b, (bitpos, ok)) \<Rightarrow>
          if \<not> ok then None else copy_bits data n (bitpos, ok) (bw_put_bit bw b))"

definition vui_walk_to_pic_struct :: "u8 list \<Rightarrow> (rstate, unit) state" where
  "vui_walk_to_pic_struct data = do {
     _ \<leftarrow> vui_walk_to_timing data;
     timing_flag \<leftarrow> br_read_bits data 1;
     _ \<leftarrow> when_set (timing_flag \<noteq> 0) (do {
       _ \<leftarrow> br_read_bits data 32;
       _ \<leftarrow> br_read_bits data 32;
       br_read_bits data 1
     });
     nal_hrd \<leftarrow> br_read_bits data 1;
     _ \<leftarrow> when_set (nal_hrd \<noteq> 0) (hrd_parameters data);
     vcl_hrd \<leftarrow> br_read_bits data 1;
     _ \<leftarrow> when_set (vcl_hrd \<noteq> 0) (hrd_parameters data);
     when_set (nal_hrd \<noteq> 0 \<or> vcl_hrd \<noteq> 0) (br_read_bits data 1)
   }"

definition patch_sps_pic_struct_flag_to_one :: "u8 list \<Rightarrow> u8 \<Rightarrow> u8 list option option" where
  "patch_sps_pic_struct_flag_to_one ebsp header_byte =
     (let rbsp = ebsp_to_rbsp ebsp in
      if rbsp = [] then None
      else
        (case run_state (do { _ \<leftarrow> sps_walk_to_vui (skip_scaling_list_fixed rbsp) rbsp;
                              br_read_bits rbsp 1 }) (0, True) of
           (vui_parameters_present_flag, (p, ok)) \<Rightarrow>
             if \<not> ok \<or> vui_parameters_present_flag = 0 then Some None
             else
               (case run_state (vui_walk_to_pic_struct rbsp) (p, ok) of
                  (_, (bitpos, ok)) \<Rightarrow>
                    if \<not> ok then Some None
                    else
                      (let byte_idx = drop_bit 3 bitpos;
                           bit_in_byte = 7 - (bitpos AND 7)
                       in if byte_idx < length rbsp
                          then Some (Some (build_annexb_from_rbsp_and_header
                                 (rbsp[byte_idx := rbsp ! byte_idx OR push_bit bit_in_byte 1])
                                 header_byte))
                          else None))))"

definition patch_sps_pic_struct_and_timing ::
    "u8 list \<Rightarrow> u8 \<Rightarrow> u32 \<Rightarrow> u32 \<Rightarrow> u8 list option option" where
  "patch_sps_pic_struct_and_timing ebsp header_byte fpsn fpsd =
     (if fpsn = 0 \<or> fpsd = 0 then patch_sps_pic_struct_flag_to_one ebsp header_byte
      else
        (let rbsp = ebsp_to_rbsp ebsp in
         if rbsp = [] then None
         else
           (case run_state (sps_walk_to_vui (skip_scaling_list_fixed rbsp) rbsp) (0, True) of
              (_, (vui_flag_bitpos, ok)) \<Rightarrow>
                (case run_state (br_read_bits rbsp 1) (vui_flag_bitpos, ok) of
                   (vui_parameters_present_flag, (_, ok)) \<Rightarrow>
                     if \<not> ok then Some None
                     else
                       (case copy_bits rbsp vui_flag_bitpos (0, ok) (bw_init []) of
                          None \<Rightarrow> Some None
                        | Some bw \<Rightarrow>
                            (let bw = bw_put_bit bw 1;
                                 bw = bw_put_bits bw 0 1;
                                 bw = bw_put_bits bw 0 1;
                                 bw = bw_put_bits bw 0 1;
                                 bw = bw_put_bits bw 0 1;
                                 bw = bw_put_bits bw 1 1;
                                 num_units = fpsd;
                                 tscale = fpsn * 2;
                                 bw = bw_put_bits bw num_units 32;
                                 bw = bw_put_bits bw tscale 32;
                                 bw = bw_put_bits bw 1 1;
                                 bw = bw_put_bits bw 0 1;
                                 bw = bw_put_bits bw 0 1;
                                 bw = bw_put_bits bw 1 1;
                                 bw = bw_put_bits bw 0 1
                             in case bw_put_rbsp_trailing_bits bw of
                                  None \<Rightarrow> None
                                | Some bw \<Rightarrow>
                                    Some (Some (build_annexb_from_rbsp_and_header (bytes bw) header_byte))))))))"

text \<open>
  Reading a patched SPS back, as \<^verbatim>\<open>log_sps_vui_from_annexb\<close> does: drop the four-byte start
  code and the header byte, undo emulation prevention, parse.
\<close>

definition sps_from_annexb :: "u8 list \<Rightarrow> (bool \<times> SpsVuiInfo) option" where
  "sps_from_annexb nal = parse_sps_vui_info_from_rbsp (ebsp_to_rbsp (drop 5 nal))"

section \<open>Access unit rewriter\<close>

text \<open>
  \<open>zero_sps_info\<close> is an \<^verbatim>\<open>SpsVuiInfo\<close> after \<^verbatim>\<open>memset(&info, 0, sizeof(info))\<close>, and
  \<open>sub_bytes data start len\<close> the \<open>len\<close> bytes at \<^verbatim>\<open>data + start\<close>.
  \<^verbatim>\<open>extract_sps_vui_from_au\<close> returns what the parser returns for the first SPS, and false
  with a zeroed info when there is none.
\<close>

definition zero_sps_info :: SpsVuiInfo where
  "zero_sps_info =
     \<lparr> vui_present = False, pic_struct_present_flag = False, cpb_dpb_delays_present_flag = False,
       cpb_removal_delay_length = 0, dpb_output_delay_length = 0, time_offset_length = 0,
       timing_info_present_flag = False, num_units_in_tick = 0, time_scale = 0,
       fixed_frame_rate_flag = False \<rparr>"

definition sub_bytes :: "u8 list \<Rightarrow> int \<Rightarrow> int \<Rightarrow> u8 list" where
  "sub_bytes data start len = take (nat len) (drop (nat start) data)"

partial_function (option) extract_sps_vui_loop ::
    "u8 list \<Rightarrow> int \<Rightarrow> int \<Rightarrow> (bool \<times> SpsVuiInfo) option" where
  "extract_sps_vui_loop annexb sz pos =
     (if pos + 4 < sz then
        (let sc = find_startcode annexb sz pos in
         if sc < 0 then Some (False, zero_sps_info)
         else
           (let sc_len = startcode_len_at annexb sz sc;
                nal_start = sc + sc_len
            in if nal_start \<ge> sz then Some (False, zero_sps_info)
               else
                 (let next = find_startcode annexb sz nal_start;
                      nal_end = (if next < 0 then sz else next);
                      nal_hdr = annexb ! nat nal_start;
                      nal_type = nal_hdr AND 0x1F
                  in if nal_type = 7
                     then parse_sps_vui_info_from_rbsp
                            (ebsp_to_rbsp (sub_bytes annexb (nal_start + 1) (nal_end - (nal_start + 1))))
                     else extract_sps_vui_loop annexb sz nal_end)))
      else Some (False, zero_sps_info))"

declare extract_sps_vui_loop.simps [code]

definition extract_sps_vui_from_au :: "u8 list \<Rightarrow> (bool \<times> SpsVuiInfo) option" where
  "extract_sps_vui_from_au annexb = extract_sps_vui_loop annexb (int (length annexb)) 0"


text \<open>
  The static variables of the source, the outcome of the calls into the media framework
  that may fail (\<^verbatim>\<open>gst_buffer_map\<close>, twice, and \<^verbatim>\<open>gst_buffer_new_allocate\<close>), and the
  local variables of the scan over the NAL units. \<open>patched_cache\<close> is
  \<^verbatim>\<open>g_patched_sps_ebsp\<close> while the scan runs. Messages written with \<^verbatim>\<open>g_printerr\<close> are
  not modelled.

  \<^verbatim>\<open>prepend_h264_sei_timecode\<close> is modelled in the order of the source:
  \<open>obtain_timecode\<close>, then \<open>build_sei_for_au\<close> (the block that builds \<^verbatim>\<open>sei\<close>), then the
  scan \<open>scan_nals\<close> (one NAL unit is \<open>scan_nal\<close>), then \<open>emit_au\<close>, which builds
  \<^verbatim>\<open>out_arr\<close>; the loop that appends the remaining NAL units is the same text in both
  branches of the source and is \<open>copy_nals\<close>. The result is the buffer returned
  (the input buffer itself for \<^verbatim>\<open>gst_buffer_ref(inbuf)\<close>, or a buffer with the new bytes
  and the timestamps and metadata of the input), the configuration and the static
  variables afterwards; \<open>None\<close> when the function does not return normally. The
  configuration pointer is never null: the probe \<^verbatim>\<open>h264_sei_inject_probe\<close> returns before
  the call when it is.
\<close>

record Globals =
  g_last_sps_info :: SpsVuiInfo
  g_last_sps_valid :: bool
  g_patched_sps_ebsp :: "u8 list option"

record GstEnv =
  sps_map_ok :: bool
  in_map_ok :: bool
  alloc_ok :: bool

record scan_vars =
  insert_after_aud :: bool
  aud_end :: int
  sps_present :: bool
  idr_present :: bool
  patched_cache :: "u8 list option"

definition clear_hrd :: "SpsVuiInfo \<Rightarrow> SpsVuiInfo" where
  "clear_hrd info = info\<lparr> cpb_dpb_delays_present_flag := False, cpb_removal_delay_length := 0,
                          dpb_output_delay_length := 0, time_offset_length := 0 \<rparr>"

definition build_sei_for_au ::
    "GstEnv \<Rightarrow> Globals \<Rightarrow> u8 list \<Rightarrow> timecode \<Rightarrow> (u8 list \<times> Globals) option" where
  "build_sei_for_au env g data tc =
     (let df = t_drop_frame tc; f = t_frame tc; s = t_seconds tc; m = t_minutes tc; h = t_hours tc in
      case (if sps_map_ok env then extract_sps_vui_from_au data else Some (False, zero_sps_info)) of
        None \<Rightarrow> None
      | Some (found, info0) \<Rightarrow>
          if found then
            (let info = clear_hrd (info0\<lparr> pic_struct_present_flag := True \<rparr>) in
             case build_pic_timing_sei_nal_from_sps info df f s m h of
               None \<Rightarrow> None
             | Some sei \<Rightarrow> Some (sei, g\<lparr> g_last_sps_info := info, g_last_sps_valid := True \<rparr>))
          else if g_last_sps_valid g then
            (let g' = g\<lparr> g_last_sps_info := clear_hrd (g_last_sps_info g) \<rparr> in
             case build_pic_timing_sei_nal_from_sps (g_last_sps_info g') df f s m h of
               None \<Rightarrow> None
             | Some sei \<Rightarrow> Some (sei, g'))
          else
            (case build_pic_timing_sei_nal_from_sps zero_sps_info df f s m h of
               None \<Rightarrow> None
             | Some sei \<Rightarrow> Some (sei, g)))"

definition patch_fps :: "SeiConfig \<Rightarrow> u32 \<times> u32" where
  "patch_fps scfg =
     (if fps_n scfg \<noteq> 0 then fps_n scfg else if est_fps scfg \<noteq> 0 then est_fps scfg else 25,
      if fps_d scfg \<noteq> 0 then fps_d scfg else 1)"

definition scan_nal :: "SeiConfig \<Rightarrow> u8 list \<Rightarrow> int \<Rightarrow> int \<Rightarrow> scan_vars \<Rightarrow> scan_vars option" where
  "scan_nal scfg data nal_start next v =
     (let nal_hdr = data ! nat nal_start;
          nal_type = nal_hdr AND 0x1F
      in if nal_type = 9 \<and> \<not> insert_after_aud v
         then Some (v\<lparr> insert_after_aud := True, aud_end := next \<rparr>)
         else if nal_type = 7 then
           (if patched_cache v = None \<and> next > nal_start + 1 then
              (case patch_sps_pic_struct_and_timing
                      (sub_bytes data (nal_start + 1) (next - (nal_start + 1))) nal_hdr
                      (fst (patch_fps scfg)) (snd (patch_fps scfg)) of
                 None \<Rightarrow> None
               | Some r \<Rightarrow> Some (v\<lparr> sps_present := True, patched_cache := r \<rparr>))
            else Some (v\<lparr> sps_present := True \<rparr>))
         else if nal_type = 5 then Some (v\<lparr> idr_present := True \<rparr>)
         else Some v)"

partial_function (option) scan_nals ::
    "SeiConfig \<Rightarrow> u8 list \<Rightarrow> int \<Rightarrow> int \<Rightarrow> scan_vars \<Rightarrow> scan_vars option" where
  "scan_nals scfg data sz nal_start v =
     (if nal_start < sz then
        (let next0 = find_startcode data sz (nal_start + 1);
             next = (if next0 < 0 then sz else next0)
         in case scan_nal scfg data nal_start next v of
              None \<Rightarrow> None
            | Some v' \<Rightarrow>
                if next = sz then Some v'
                else scan_nals scfg data sz (next + startcode_len_at data sz next) v')
      else Some v)"

declare scan_nals.simps [code]

definition cache_nonempty :: "u8 list option \<Rightarrow> bool" where
  "cache_nonempty c \<longleftrightarrow> (case c of None \<Rightarrow> False | Some p \<Rightarrow> length p > 0)"

partial_function (option) copy_nals ::
    "u8 list \<Rightarrow> int \<Rightarrow> u8 list option \<Rightarrow> int \<Rightarrow> u8 list \<times> bool \<Rightarrow> (u8 list \<times> bool) option" where
  "copy_nals data sz cache p acc =
     (if p < sz then
        (let sc = find_startcode data sz p in
         if sc < 0 then Some acc
         else
           (let sc_len2 = startcode_len_at data sz sc;
                nal_start2 = sc + sc_len2
            in if nal_start2 \<ge> sz then Some acc
               else
                 (let next0 = find_startcode data sz (nal_start2 + 1);
                      next2 = (if next0 < 0 then sz else next0);
                      nal_hdr2 = data ! nat nal_start2;
                      nal_type2 = nal_hdr2 AND 0x1F;
                      acc' = (case acc of (out_arr, sps_replaced) \<Rightarrow>
                               if nal_type2 = 7 then
                                 (if \<not> sps_replaced \<and> cache_nonempty cache
                                  then (out_arr @ the cache, True) else (out_arr, sps_replaced))
                               else if nal_type2 = 6 then (out_arr, sps_replaced)
                               else (out_arr @ sub_bytes data sc (next2 - sc), sps_replaced))
                  in copy_nals data sz cache next2 acc')))
      else Some acc)"

declare copy_nals.simps [code]

definition emit_au :: "u8 list \<Rightarrow> int \<Rightarrow> scan_vars \<Rightarrow> u8 list \<Rightarrow> u8 list option" where
  "emit_au data sz v sei =
     (let cache = patched_cache v;
          inject_patched_sps = (cache_nonempty cache \<and> (sps_present v \<or> idr_present v));
          want_before_sei = (cache_nonempty cache \<and> (sps_present v \<or> inject_patched_sps));
          out0 = (if insert_after_aud v then sub_bytes data 0 (aud_end v) else []);
          out1 = (if want_before_sei then out0 @ the cache else out0);
          out2 = (if length sei > 0 then out1 @ sei else out1);
          p = (if insert_after_aud v then aud_end v else 0)
      in map_option fst (copy_nals data sz cache p (out2, want_before_sei)))"

definition prepend_h264_sei_timecode ::
    "bool \<Rightarrow> GstEnv \<Rightarrow> SeiConfig \<Rightarrow> Globals \<Rightarrow> GstBuffer \<Rightarrow> (GstBuffer \<times> SeiConfig \<times> Globals) option" where
  "prepend_h264_sei_timecode have_flag_macro env scfg0 g0 inbuf =
     (case obtain_timecode have_flag_macro scfg0 inbuf of
        (tc, scfg) \<Rightarrow>
          if \<not> have_tc tc then Some (inbuf, scfg, g0)
          else
            (let data = buf_data inbuf; sz = int (length data) in
             case build_sei_for_au env g0 data tc of
               None \<Rightarrow> None
             | Some (sei, g1) \<Rightarrow>
                 if \<not> in_map_ok env then Some (inbuf, scfg, g1)
                 else
                   (let pos0 = find_startcode data sz 0;
                        sc_len = (if pos0 \<ge> 0 then startcode_len_at data sz pos0 else 0);
                        v0 = \<lparr> insert_after_aud = False, aud_end = -1, sps_present = False,
                               idr_present = False, patched_cache = g_patched_sps_ebsp g1 \<rparr>
                    in case (if sc_len > 0 then scan_nals scfg data sz (pos0 + sc_len) v0 else Some v0) of
                         None \<Rightarrow> None
                       | Some v \<Rightarrow>
                           (let g2 = g1\<lparr> g_patched_sps_ebsp := patched_cache v \<rparr> in
                            if pos0 < 0 then Some (inbuf, scfg, g2)
                            else
                              (case emit_au data sz v sei of
                                 None \<Rightarrow> None
                               | Some out_arr \<Rightarrow>
                                   if \<not> alloc_ok env then Some (inbuf, scfg, g2)
                                   else Some (inbuf\<lparr> buf_data := out_arr \<rparr>, scfg, g2))))))"

text \<open>
  The static variables when the program starts, and the case in which every framework
  call succeeds.
\<close>

definition initial_globals :: Globals where
  "initial_globals = \<lparr> g_last_sps_info = zero_sps_info, g_last_sps_valid = False, g_patched_sps_ebsp = None \<rparr>"

definition env_ok :: GstEnv where
  "env_ok = \<lparr> sps_map_ok = True, in_map_ok = True, alloc_ok = True \<rparr>"

section \<open>NAL unit types of a buffer\<close>

text \<open>
  To count the NAL units of a given type in a buffer, \<open>nal_types\<close> walks it the way the
  loops of the rewriter do (the next start code from the current position, the header
  byte behind it, the following start code or the end of the buffer) and lists the type
  of each NAL unit it meets.
\<close>

partial_function (option) nal_types_loop :: "u8 list \<Rightarrow> int \<Rightarrow> int \<Rightarrow> u8 list \<Rightarrow> u8 list option" where
  "nal_types_loop data sz p acc =
     (if p < sz then
        (let sc = find_startcode data sz p in
         if sc < 0 then Some acc
         else
           (let nal_start = sc + startcode_len_at data sz sc in
            if nal_start \<ge> sz then Some acc
            else
              (let next0 = find_startcode data sz (nal_start + 1);
                   next = (if next0 < 0 then sz else next0)
               in nal_types_loop data sz next (acc @ [data ! nat nal_start AND 0x1F]))))
      else Some acc)"

declare nal_types_loop.simps [code]

definition nal_types :: "u8 list \<Rightarrow> u8 list option" where
  "nal_types data = nal_types_loop data (int (length data)) 0 []"

section \<open>Properties of the NAL scanner\<close>

lemma find_startcode_found:
  "find_startcode data sz from = i \<Longrightarrow> 0 \<le> i \<Longrightarrow> 0 \<le> from \<Longrightarrow>
     from \<le> i \<and> (startcode_len_at data sz i = 3 \<or> startcode_len_at data sz i = 4)
       \<and> i + startcode_len_at data sz i < sz"
proof (induction data sz "from" rule: find_startcode.induct)
  case (1 data sz j)
  show ?case
  proof (cases "j + 3 < sz")
    case False
    with "1.prems" show ?thesis
      by (simp add: find_startcode.simps [of data sz j])
  next
    case inb: True
    show ?thesis
    proof (cases "data ! nat j = 0x00 \<and> data ! nat (j + 1) = 0x00")
      case False
      with inb "1.prems" have "find_startcode data sz (j + 1) = i"
        by (simp add: find_startcode.simps [of data sz j])
      with "1.IH"(2) [OF inb False] "1.prems" show ?thesis by simp
    next
      case zz: True
      show ?thesis
      proof (cases "data ! nat (j + 2) = 0x01")
        case True
        with inb zz "1.prems" have "i = j"
          by (simp add: find_startcode.simps [of data sz j])
        with inb zz True show ?thesis
          by (simp add: startcode_len_at_def)
      next
        case n1: False
        show ?thesis
        proof (cases "j + 4 < sz \<and> data ! nat (j + 2) = 0x00 \<and> data ! nat (j + 3) = 0x01")
          case True
          with inb zz n1 "1.prems" have "i = j"
            by (simp add: find_startcode.simps [of data sz j])
          with inb zz n1 True show ?thesis
            by (simp add: startcode_len_at_def)
        next
          case False
          with inb zz n1 "1.prems" have "find_startcode data sz (j + 1) = i"
            by (simp add: find_startcode.simps [of data sz j])
          with "1.IH"(1) [OF inb zz n1 False] "1.prems" show ?thesis by simp
        qed
      qed
    qed
  qed
qed

text \<open>
  C10. Whenever \<open>find_startcode\<close> returns a non-negative index \<open>i\<close>, the start code at \<open>i\<close>
  has length 3 or 4 and at least one byte follows it (\<open>i + startcode_len < size\<close>), so the
  NAL header byte read after a discovered start code is inside the buffer. A buffer that
  consists of a bare start code only (\<open>00 00 01\<close> or \<open>00 00 00 01\<close>) yields \<open>-1\<close>.
\<close>

theorem find_startcode_header_in_bounds:
  "(\<forall>data from i. 0 \<le> from \<and> find_startcode data (int (length data)) from = i \<and> 0 \<le> i \<longrightarrow>
       from \<le> i
     \<and> startcode_len_at data (int (length data)) i \<in> {3, 4}
     \<and> i + startcode_len_at data (int (length data)) i < int (length data)
     \<and> nat (i + startcode_len_at data (int (length data)) i) < length data)
   \<and> find_startcode [0x00, 0x00, 0x01] 3 0 = -1
   \<and> find_startcode [0x00, 0x00, 0x00, 0x01] 4 0 = -1
   \<and> find_startcode [0x65, 0x00, 0x00, 0x01] 4 0 = -1"
proof -
  have general: "from \<le> i
     \<and> startcode_len_at data (int (length data)) i \<in> {3, 4}
     \<and> i + startcode_len_at data (int (length data)) i < int (length data)
     \<and> nat (i + startcode_len_at data (int (length data)) i) < length data"
    if "0 \<le> from" "find_startcode data (int (length data)) from = i" "0 \<le> i"
    for data "from" i
    using find_startcode_found [OF that(2) that(3) that(1)] that by auto
  have a: "find_startcode [0x00, 0x00, 0x01] 3 0 = -1"
    by (simp add: find_startcode.simps)
  have b: "find_startcode [0x00, 0x00, 0x00, 0x01] 4 0 = -1"
    by (simp add: find_startcode.simps)
  have c: "find_startcode [0x65, 0x00, 0x00, 0x01] 4 0 = -1"
    by (simp add: find_startcode.simps)
  from general a b c show ?thesis by blast
qed

theorem find_startcode_header_in_bounds_witness:
  "0 \<le> (0::int)
   \<and> find_startcode [0x00, 0x00, 0x01, 0x65] (int (length [0x00, 0x00, 0x01, 0x65 :: u8])) 0 = 0
   \<and> startcode_len_at [0x00, 0x00, 0x01, 0x65] (int (length [0x00, 0x00, 0x01, 0x65 :: u8])) 0 = 3
   \<and> nat (0 + startcode_len_at [0x00, 0x00, 0x01, 0x65] (int (length [0x00, 0x00, 0x01, 0x65 :: u8])) 0)
       < length [0x00, 0x00, 0x01, 0x65 :: u8]"
proof -
  have f: "find_startcode [0x00, 0x00, 0x01, 0x65] (int (length [0x00, 0x00, 0x01, 0x65 :: u8])) 0 = 0"
    by (simp add: find_startcode.simps)
  from find_startcode_header_in_bounds
  have "0 \<le> (0::int) \<and> find_startcode [0x00, 0x00, 0x01, 0x65] (int (length [0x00, 0x00, 0x01, 0x65 :: u8])) 0 = 0 \<and> 0 \<le> (0::int) \<longrightarrow>
       startcode_len_at [0x00, 0x00, 0x01, 0x65] (int (length [0x00, 0x00, 0x01, 0x65 :: u8])) 0 \<in> {3, 4}
     \<and> nat (0 + startcode_len_at [0x00, 0x00, 0x01, 0x65] (int (length [0x00, 0x00, 0x01, 0x65 :: u8])) 0)
         < length [0x00, 0x00, 0x01, 0x65 :: u8]"
    by blast
  with f show ?thesis
    by (simp add: startcode_len_at_def)
qed

section \<open>Properties of the emulation-prevention codec\<close>

lemma u32_two_le [simp]: "\<not> (2::u32) \<le> 1" "\<not> (2::u32) \<le> 0" "(1::u32) + 1 = 2"
  by (simp_all add: word_le_nat_alt)

lemma epb_step:
  assumes "epb_sync arr z"
  shows "\<exists>e z'. epb_safe_append arr b = arr @ e \<and> epb_sync (arr @ e) z'
           \<and> (\<forall>rest r. ebsp_to_rbsp_loop (e @ rest) z r = ebsp_to_rbsp_loop rest z' (r @ [b]))"
proof -
  consider (z0) "z = 0" "arr = [] \<or> arr ! (length arr - 1) \<noteq> 0"
    | (z1) "z = 1" "1 \<le> length arr" "arr ! (length arr - 1) = 0" "2 \<le> length arr \<longrightarrow> arr ! (length arr - 2) \<noteq> 0"
    | (z2) "z = 2" "2 \<le> length arr" "arr ! (length arr - 1) = 0" "arr ! (length arr - 2) = 0"
    using assms unfolding epb_sync_def by blast
  then show ?thesis
  proof cases
    case z0
    then have e: "epb_safe_append arr b = arr @ [b]"
      by (auto simp: epb_safe_append_def Let_def)
    have s: "epb_sync (arr @ [b]) (if b = 0 then 1 else 0)"
      using z0 by (auto simp: epb_sync_def nth_append)
    show ?thesis
      using e s z0 by (intro exI [of _ "[b]"] exI [of _ "if b = 0 then 1 else 0"]) auto
  next
    case z1
    then have e: "epb_safe_append arr b = arr @ [b]"
      by (auto simp: epb_safe_append_def Let_def)
    have s: "epb_sync (arr @ [b]) (if b = 0 then 2 else 0)"
      using z1 by (auto simp: epb_sync_def nth_append)
    show ?thesis
      using e s z1 by (intro exI [of _ "[b]"] exI [of _ "if b = 0 then 2 else 0"]) auto
  next
    case z2
    show ?thesis
    proof (cases "b \<le> 3")
      case True
      with z2 have e: "epb_safe_append arr b = arr @ [3, b]"
        by (auto simp: epb_safe_append_def Let_def)
      have s: "epb_sync (arr @ [3, b]) (if b = 0 then 1 else 0)"
        using z2 by (auto simp: epb_sync_def nth_append)
      show ?thesis
        using e s z2 by (intro exI [of _ "[3, b]"] exI [of _ "if b = 0 then 1 else 0"]) auto
    next
      case False
      with z2 have e: "epb_safe_append arr b = arr @ [b]"
        by (auto simp: epb_safe_append_def Let_def)
      from False have b3: "b \<noteq> 3" "b \<noteq> 0" by auto
      have s: "epb_sync (arr @ [b]) 0"
        using z2 b3 by (auto simp: epb_sync_def nth_append)
      show ?thesis
        using e s z2 b3 by (intro exI [of _ "[b]"] exI [of _ "0"]) auto
    qed
  qed
qed

lemma epb_append_all_decodes:
  "epb_sync arr z \<Longrightarrow>
     \<exists>e. epb_append_all arr x = arr @ e \<and> (\<forall>r. ebsp_to_rbsp_loop e z r = r @ x)"
proof (induction x arbitrary: arr z)
  case Nil
  then show ?case by (simp add: epb_append_all_def)
next
  case (Cons b x)
  from epb_step [OF Cons.prems, of b] obtain e z' where
    e: "epb_safe_append arr b = arr @ e" and s: "epb_sync (arr @ e) z'"
    and d: "\<And>rest r. ebsp_to_rbsp_loop (e @ rest) z r = ebsp_to_rbsp_loop rest z' (r @ [b])"
    by blast
  from Cons.IH [OF s] obtain e' where
    e': "epb_append_all (arr @ e) x = (arr @ e) @ e'"
    and d': "\<And>r. ebsp_to_rbsp_loop e' z' r = r @ x"
    by blast
  have "epb_append_all arr (b # x) = arr @ (e @ e')"
    using e e' by (simp add: epb_append_all_def)
  moreover have "ebsp_to_rbsp_loop (e @ e') z r = r @ b # x" for r
    using d d' by simp
  ultimately show ?case by blast
qed

lemma epb_append_all_empty_decodes:
  "ebsp_to_rbsp (epb_append_all [] x) = x"
proof -
  have "epb_sync [] 0" by (simp add: epb_sync_def)
  from epb_append_all_decodes [OF this, of x]
  show ?thesis by (auto simp: ebsp_to_rbsp_def)
qed

lemma build_annexb_decodes:
  assumes "header_byte \<noteq> 0"
  shows "\<exists>e. build_annexb_from_rbsp_and_header rbsp header_byte
               = [0x00, 0x00, 0x00, 0x01, header_byte] @ e
             \<and> ebsp_to_rbsp e = rbsp"
proof -
  have h: "epb_safe_append [0x00, 0x00, 0x00, 0x01] header_byte = [0x00, 0x00, 0x00, 0x01, header_byte]"
    by (simp add: epb_safe_append_def)
  have "epb_sync [0x00, 0x00, 0x00, 0x01, header_byte] 0"
    using assms by (simp add: epb_sync_def)
  from epb_append_all_decodes [OF this, of rbsp] h
  show ?thesis by (auto simp: ebsp_to_rbsp_def build_annexb_from_rbsp_and_header_def)
qed

text \<open>
  C3. Round trip of the RBSP/EBSP codec: for every byte sequence \<open>x\<close> that does not
  contain two consecutive \<open>00\<close> bytes followed by a byte at most \<open>03\<close>, emitting each
  byte of \<open>x\<close> with \<open>epb_safe_append\<close> and converting the result back with
  \<open>ebsp_to_rbsp\<close> returns exactly \<open>x\<close>.
\<close>

theorem ebsp_rbsp_round_trip:
  "\<not> has_forbidden x \<Longrightarrow> ebsp_to_rbsp (epb_append_all [] x) = x"
  by (rule epb_append_all_empty_decodes)

theorem ebsp_rbsp_round_trip_witness:
  "\<not> has_forbidden [0x67, 0x00, 0x00, 0x04, 0x00, 0x01]
   \<and> ebsp_to_rbsp (epb_append_all [] [0x67, 0x00, 0x00, 0x04, 0x00, 0x01])
       = [0x67, 0x00, 0x00, 0x04, 0x00, 0x01]"
proof -
  have h: "\<not> has_forbidden [0x67, 0x00, 0x00, 0x04, 0x00, 0x01]"
    by simp
  from ebsp_rbsp_round_trip [OF h] h show ?thesis by simp
qed

section \<open>Properties of the timecode source\<close>

lemma unat_GST_SECOND: "unat GST_SECOND = 1000000000"
  by (simp add: GST_SECOND_def)

lemma unat_u32_bound: "unat (x :: u32) < 4294967296"
  using unsigned_less [of x, where 'a = nat] by simp

lemma unat_ucast_u32_u64: "unat (ucast (x :: u32) :: u64) = unat x"
  using unat_u32_bound [of x] by (simp add: unsigned_ucast_eq take_bit_nat_eq_self)

lemma unat_ucast_u64_u32: "unat (x :: u64) < 4294967296 \<Longrightarrow> unat (ucast x :: u32) = unat x"
  by (simp add: unsigned_ucast_eq take_bit_nat_eq_self)

lemma unat_frac_mult:
  "unat ((pts mod GST_SECOND) * ucast (n :: u32)) = (unat pts mod 1000000000) * unat n"
proof -
  have a: "unat (pts mod GST_SECOND) = unat pts mod 1000000000"
    by (simp add: unat_mod unat_GST_SECOND)
  have "(unat pts mod 1000000000) * unat n < 1000000000 * 4294967296"
    using unat_u32_bound [of n] by (intro mult_strict_mono) auto
  then have "unat (pts mod GST_SECOND) * unat (ucast n :: u64) < 2 ^ LENGTH(64)"
    by (simp add: a unat_ucast_u32_u64)
  then show ?thesis
    by (simp add: unat_mult_lem [THEN iffD1] a unat_ucast_u32_u64)
qed

lemma unat_den_mult:
  "unat (GST_SECOND * ucast (d :: u32)) = 1000000000 * unat d"
proof -
  have "1000000000 * unat d < 1000000000 * 4294967296"
    using unat_u32_bound [of d] by simp
  then have "unat GST_SECOND * unat (ucast d :: u64) < 2 ^ LENGTH(64)"
    by (simp add: unat_GST_SECOND unat_ucast_u32_u64)
  then show ?thesis
    by (simp add: unat_mult_lem [THEN iffD1] unat_GST_SECOND unat_ucast_u32_u64)
qed

lemma frac_quotient_bound:
  "0 < d \<Longrightarrow> ((a mod 1000000000) * n) div (1000000000 * d) \<le> (n :: nat)"
proof -
  assume d: "0 < d"
  have "(a mod 1000000000) * n \<le> 1000000000 * n" by simp
  also have "\<dots> \<le> (1000000000 * d) * n" using d by simp
  finally have "((a mod 1000000000) * n) div (1000000000 * d) \<le> ((1000000000 * d) * n) div (1000000000 * d)"
    by (rule div_le_mono)
  also have "\<dots> = n" using d by simp
  finally show ?thesis .
qed

lemma frame_known_fps:
  assumes "0 < fps_n scfg" "0 < fps_d scfg"
  shows "unat (t_frame (fst (timecode_from_pts scfg pts)))
           = (unat pts mod 1000000000) * unat (fps_n scfg) div (1000000000 * unat (fps_d scfg))"
proof -
  have d: "0 < unat (fps_d scfg)" using assms(2) by (simp add: word_less_nat_alt)
  have "(unat pts mod 1000000000) * unat (fps_n scfg) div (1000000000 * unat (fps_d scfg)) < 4294967296"
    using frac_quotient_bound [OF d, of "unat pts" "unat (fps_n scfg)"] unat_u32_bound [of "fps_n scfg"]
    by linarith
  then show ?thesis
    using assms by (simp add: timecode_from_pts_def Let_def unat_ucast_u64_u32 unat_div unat_frac_mult unat_den_mult)
qed

lemma frame_estimated_fps:
  assumes "\<not> (0 < fps_n scfg \<and> 0 < fps_d scfg)"
  shows "unat (t_frame (fst (timecode_from_pts scfg pts)))
           = (unat pts mod 1000000000)
               * unat (if est_fps (estimate_fps scfg pts) \<noteq> 0 then est_fps (estimate_fps scfg pts) else 25)
               div 1000000000"
    and "snd (timecode_from_pts scfg pts) = estimate_fps scfg pts"
proof -
  define f where "f = (if est_fps (estimate_fps scfg pts) \<noteq> 0 then est_fps (estimate_fps scfg pts) else 25)"
  have t: "t_frame (fst (timecode_from_pts scfg pts))
             = ucast (((pts mod GST_SECOND) * ucast f) div GST_SECOND)"
    using assms unfolding f_def timecode_from_pts_def Let_def by auto
  have "(unat pts mod 1000000000) * unat f div (1000000000 * 1) \<le> unat f"
    by (rule frac_quotient_bound) simp
  then have "(unat pts mod 1000000000) * unat f div 1000000000 < 4294967296"
    using unat_u32_bound [of f] by simp
  then have "unat (t_frame (fst (timecode_from_pts scfg pts)))
           = (unat pts mod 1000000000) * unat f div 1000000000"
    unfolding t by (simp add: unat_ucast_u64_u32 unat_div unat_frac_mult unat_GST_SECOND)
  then show "unat (t_frame (fst (timecode_from_pts scfg pts)))
           = (unat pts mod 1000000000)
               * unat (if est_fps (estimate_fps scfg pts) \<noteq> 0 then est_fps (estimate_fps scfg pts) else 25)
               div 1000000000"
    unfolding f_def .
  show "snd (timecode_from_pts scfg pts) = estimate_fps scfg pts"
    using assms by (auto simp: timecode_from_pts_def Let_def)
qed

lemma hms_from_pts:
  "unat (t_hours (fst (timecode_from_pts scfg pts))) = (unat pts div 1000000000 div 3600) mod 24"
  "unat (t_minutes (fst (timecode_from_pts scfg pts))) = (unat pts div 1000000000 div 60) mod 60"
  "unat (t_seconds (fst (timecode_from_pts scfg pts))) = (unat pts div 1000000000) mod 60"
  "have_tc (fst (timecode_from_pts scfg pts))"
  by (simp_all add: timecode_from_pts_def Let_def unat_div unat_mod unat_GST_SECOND unsigned_ucast_eq take_bit_eq_mod)

lemma estimate_fps_est:
  "est_fps (estimate_fps scfg pts)
     = (if last_pts_ns scfg \<noteq> 0
           \<and> 12 \<le> 1000000000 div unat (pts - last_pts_ns scfg)
           \<and> 1000000000 div unat (pts - last_pts_ns scfg) \<le> 120
        then of_nat (1000000000 div unat (pts - last_pts_ns scfg))
        else est_fps scfg)"
  and "last_pts_ns (estimate_fps scfg pts) = pts"
proof -
  let ?delta = "pts - last_pts_ns scfg"
  let ?q = "1000000000 div unat ?delta"
  have q: "unat (ucast (GST_SECOND div ?delta) :: u32) = ?q"
  proof -
    have "?q \<le> 1000000000" by (rule div_le_dividend)
    then have "?q < 4294967296" by linarith
    then show ?thesis
      by (simp add: unat_ucast_u64_u32 unat_div unat_GST_SECOND)
  qed
  have e: "(ucast (GST_SECOND div ?delta) :: u32) = of_nat ?q"
    using q by (metis of_nat_unat ucast_id)
  have z: "?delta > 0 \<longleftrightarrow> unat ?delta \<noteq> 0"
    by (simp add: word_greater_zero_iff unat_0_iff)
  show "est_fps (estimate_fps scfg pts)
     = (if last_pts_ns scfg \<noteq> 0 \<and> 12 \<le> ?q \<and> ?q \<le> 120 then of_nat ?q else est_fps scfg)"
    using q z by (auto simp: estimate_fps_def Let_def e [symmetric] word_le_nat_alt)
  show "last_pts_ns (estimate_fps scfg pts) = pts"
    by (simp add: estimate_fps_def Let_def)
qed

text \<open>
  C8 (as amended). For a buffer with a valid PTS, no attached timecode, and \<open>prefer_pts\<close>
  set: a timecode is obtained with hours \<open>(pts/1s/3600) mod 24\<close>, minutes
  \<open>(pts/1s/60) mod 60\<close>, seconds \<open>(pts/1s) mod 60\<close>. When \<open>fps_n > 0\<close> and
  \<open>fps_d > 0\<close> the frame index is \<open>(pts mod 1s) * fps_n / (1s * fps_d)\<close>. Otherwise the
  stored estimate \<open>est_fps\<close> is replaced by \<open>q = 1s / (pts - last_pts)\<close> only when a
  previous PTS is stored and \<open>q\<close> lies in \<open>[12, 120]\<close> (an out-of-range \<open>q\<close> leaves the
  stored estimate as it was), and the frame index is \<open>(pts mod 1s) * fps / 1s\<close> where
  \<open>fps\<close> is the stored estimate, or 25 when none is stored.
\<close>

theorem pts_timecode_derivation:
  assumes "buf_tcmeta inbuf = None" and "prefer_pts scfg" and "GST_BUFFER_PTS_IS_VALID inbuf"
  shows "have_tc (fst (obtain_timecode m scfg inbuf))
     \<and> unat (t_hours (fst (obtain_timecode m scfg inbuf)))
           = (unat (buf_pts inbuf) div 1000000000 div 3600) mod 24
     \<and> unat (t_minutes (fst (obtain_timecode m scfg inbuf)))
           = (unat (buf_pts inbuf) div 1000000000 div 60) mod 60
     \<and> unat (t_seconds (fst (obtain_timecode m scfg inbuf)))
           = (unat (buf_pts inbuf) div 1000000000) mod 60
     \<and> (0 < fps_n scfg \<and> 0 < fps_d scfg \<longrightarrow>
           unat (t_frame (fst (obtain_timecode m scfg inbuf)))
             = (unat (buf_pts inbuf) mod 1000000000) * unat (fps_n scfg)
                 div (1000000000 * unat (fps_d scfg)))
     \<and> (\<not> (0 < fps_n scfg \<and> 0 < fps_d scfg) \<longrightarrow>
           est_fps (snd (obtain_timecode m scfg inbuf))
             = (if last_pts_ns scfg \<noteq> 0
                   \<and> 12 \<le> 1000000000 div unat (buf_pts inbuf - last_pts_ns scfg)
                   \<and> 1000000000 div unat (buf_pts inbuf - last_pts_ns scfg) \<le> 120
                then of_nat (1000000000 div unat (buf_pts inbuf - last_pts_ns scfg))
                else est_fps scfg)
         \<and> unat (t_frame (fst (obtain_timecode m scfg inbuf)))
             = (unat (buf_pts inbuf) mod 1000000000)
                 * unat (if est_fps (snd (obtain_timecode m scfg inbuf)) \<noteq> 0
                         then est_fps (snd (obtain_timecode m scfg inbuf)) else 25)
                 div 1000000000)"
proof -
  have o: "obtain_timecode m scfg inbuf = timecode_from_pts scfg (buf_pts inbuf)"
    using assms by (simp add: obtain_timecode_def)
  have known: "unat (t_frame (fst (timecode_from_pts scfg (buf_pts inbuf))))
             = (unat (buf_pts inbuf) mod 1000000000) * unat (fps_n scfg)
                 div (1000000000 * unat (fps_d scfg))"
    if "0 < fps_n scfg \<and> 0 < fps_d scfg"
    using that frame_known_fps by blast
  have est: "est_fps (snd (timecode_from_pts scfg (buf_pts inbuf)))
             = (if last_pts_ns scfg \<noteq> 0
                   \<and> 12 \<le> 1000000000 div unat (buf_pts inbuf - last_pts_ns scfg)
                   \<and> 1000000000 div unat (buf_pts inbuf - last_pts_ns scfg) \<le> 120
                then of_nat (1000000000 div unat (buf_pts inbuf - last_pts_ns scfg))
                else est_fps scfg)
         \<and> unat (t_frame (fst (timecode_from_pts scfg (buf_pts inbuf))))
             = (unat (buf_pts inbuf) mod 1000000000)
                 * unat (if est_fps (snd (timecode_from_pts scfg (buf_pts inbuf))) \<noteq> 0
                         then est_fps (snd (timecode_from_pts scfg (buf_pts inbuf))) else 25)
                 div 1000000000"
    if a: "\<not> (0 < fps_n scfg \<and> 0 < fps_d scfg)"
    unfolding frame_estimated_fps(2) [OF a, of "buf_pts inbuf"]
    using frame_estimated_fps(1) [OF a, of "buf_pts inbuf"] estimate_fps_est(1) [of scfg "buf_pts inbuf"]
    by blast
  from known est show ?thesis
    unfolding o using hms_from_pts [of scfg "buf_pts inbuf"] by blast
qed

theorem pts_timecode_derivation_witness:
  "unat (t_hours (fst (obtain_timecode False
      \<lparr> inject_sei = True, fps_n = 25, fps_d = 1, prefer_pts = True, verbose = False,
        last_pts_ns = 0, last_sec = 0, est_fps = 0 \<rparr>
      \<lparr> buf_data = [], buf_pts = 3723500000000, buf_tcmeta = None \<rparr>))) = 1
   \<and> unat (t_frame (fst (obtain_timecode False
      \<lparr> inject_sei = True, fps_n = 25, fps_d = 1, prefer_pts = True, verbose = False,
        last_pts_ns = 0, last_sec = 0, est_fps = 0 \<rparr>
      \<lparr> buf_data = [], buf_pts = 3723500000000, buf_tcmeta = None \<rparr>))) = 12
   \<and> est_fps (snd (obtain_timecode False
      \<lparr> inject_sei = True, fps_n = 0, fps_d = 0, prefer_pts = True, verbose = False,
        last_pts_ns = 3723460000000, last_sec = 0, est_fps = 0 \<rparr>
      \<lparr> buf_data = [], buf_pts = 3723500000000, buf_tcmeta = None \<rparr>)) = 25
   \<and> unat (t_frame (fst (obtain_timecode False
      \<lparr> inject_sei = True, fps_n = 0, fps_d = 0, prefer_pts = True, verbose = False,
        last_pts_ns = 3723460000000, last_sec = 0, est_fps = 0 \<rparr>
      \<lparr> buf_data = [], buf_pts = 3723500000000, buf_tcmeta = None \<rparr>))) = 12"
proof -
  let ?b = "\<lparr> buf_data = [], buf_pts = 3723500000000, buf_tcmeta = None \<rparr>"
  let ?c1 = "\<lparr> inject_sei = True, fps_n = 25, fps_d = 1, prefer_pts = True, verbose = False,
        last_pts_ns = 0, last_sec = 0, est_fps = 0 \<rparr>"
  let ?c2 = "\<lparr> inject_sei = True, fps_n = 0, fps_d = 0, prefer_pts = True, verbose = False,
        last_pts_ns = 3723460000000, last_sec = 0, est_fps = 0 \<rparr>"
  have b: "buf_tcmeta ?b = None" "GST_BUFFER_PTS_IS_VALID ?b"
    by (simp_all add: GST_BUFFER_PTS_IS_VALID_def GST_CLOCK_TIME_NONE_def)
  have c: "prefer_pts ?c1" "prefer_pts ?c2" by simp_all
  have d: "unat (3723500000000 - 3723460000000 :: u64) = 40000000" by simp
  from pts_timecode_derivation [OF b(1) c(1) b(2), of False]
  have 1: "unat (t_hours (fst (obtain_timecode False ?c1 ?b))) = 1
         \<and> unat (t_frame (fst (obtain_timecode False ?c1 ?b))) = 12"
    by simp
  from pts_timecode_derivation [OF b(1) c(2) b(2), of False]
  have e: "est_fps (snd (obtain_timecode False ?c2 ?b)) = 25"
    by (simp add: d)
  from pts_timecode_derivation [OF b(1) c(2) b(2), of False]
  have "unat (t_frame (fst (obtain_timecode False ?c2 ?b))) = 12"
    unfolding e by simp
  with 1 e show ?thesis by blast
qed

theorem pts_estimate_not_clamped:
  "unat (t_frame (fst (obtain_timecode False
      \<lparr> inject_sei = True, fps_n = 0, fps_d = 0, prefer_pts = True, verbose = False,
        last_pts_ns = 899000000, last_sec = 0, est_fps = 0 \<rparr>
      \<lparr> buf_data = [], buf_pts = 900000000, buf_tcmeta = None \<rparr>)))
     \<noteq> (900000000 mod 1000000000) * est_fps_clamped 900000000 899000000 div 1000000000"
proof -
  have "unat (t_frame (fst (obtain_timecode False
      \<lparr> inject_sei = True, fps_n = 0, fps_d = 0, prefer_pts = True, verbose = False,
        last_pts_ns = 899000000, last_sec = 0, est_fps = 0 \<rparr>
      \<lparr> buf_data = [], buf_pts = 900000000, buf_tcmeta = None \<rparr>))) = 22"
    by (simp add: obtain_timecode_def GST_BUFFER_PTS_IS_VALID_def GST_CLOCK_TIME_NONE_def
        timecode_from_pts_def estimate_fps_def GST_SECOND_def Let_def)
  moreover have "(900000000 mod 1000000000) * est_fps_clamped 900000000 899000000 div 1000000000 = (108 :: nat)"
    by (simp add: est_fps_clamped_def)
  ultimately show ?thesis by simp
qed

section \<open>Properties of the bit writer\<close>

lemma length_word_bits [simp]: "length (word_bits n w) = n"
  by (simp add: word_bits_def)

lemma word_bits_Suc: "word_bits (Suc n) w = bit w n # word_bits n w"
  by (simp add: word_bits_def)

lemma word_bits_0 [simp]: "word_bits 0 w = []"
  by (simp add: word_bits_def)

lemma length_bits_of_bytes [simp]: "length (bits_of_bytes bs) = 8 * length bs"
  by (induction bs) (simp_all add: bits_of_bytes_def)

lemma bits_of_bytes_append [simp]: "bits_of_bytes (xs @ ys) = bits_of_bytes xs @ bits_of_bytes ys"
  by (simp add: bits_of_bytes_def)

lemma bits_of_bytes_Nil [simp]: "bits_of_bytes [] = []"
  by (simp add: bits_of_bytes_def)

lemma bits_of_bytes_Cons: "bits_of_bytes (b # bs) = word_bits 8 b @ bits_of_bytes bs"
  by (simp add: bits_of_bytes_def)

lemma put_bit_cur_bits:
  fixes c :: u8 and b :: u32
  assumes "n < 8"
  shows "word_bits (Suc n) (ucast (push_bit 1 (ucast c :: u32) OR (b AND 1)) :: u8)
           = word_bits n c @ [bit b 0]"
proof -
  let ?c' = "ucast (push_bit 1 (ucast c :: u32) OR (b AND 1)) :: u8"
  have b0: "bit ?c' 0 = bit b 0"
    by (simp only: bit_ucast_iff, simp only: bit_or_iff, simp only: bit_push_bit_iff bit_and_iff bit_1_iff) simp
  have bS: "bit ?c' (Suc i) = bit c i" if "i < 7" for i
    using that by (simp only: bit_ucast_iff, simp only: bit_or_iff, simp only: bit_push_bit_iff bit_and_iff bit_1_iff)
      (auto simp: bit_ucast_iff)
  have "word_bits (Suc k) ?c' = word_bits k c @ [bit b 0]" if "k < 8" for k
    using that
  proof (induction k)
    case 0
    then show ?case by (simp only: word_bits_Suc word_bits_0 b0) simp
  next
    case (Suc k)
    then have ih: "word_bits (Suc k) ?c' = word_bits k c @ [bit b 0]" by simp
    have bk: "bit ?c' (Suc k) = bit c k" using Suc.prems by (intro bS) simp
    have "word_bits (Suc (Suc k)) ?c' = bit ?c' (Suc k) # word_bits (Suc k) ?c'"
      by (rule word_bits_Suc)
    also have "\<dots> = bit c k # (word_bits k c @ [bit b 0])"
      by (simp only: ih bk)
    also have "\<dots> = word_bits (Suc k) c @ [bit b 0]"
      by (simp add: word_bits_Suc)
    finally show ?case .
  qed
  with assms show ?thesis by blast
qed

lemma bw_put_bit_bits:
  assumes "bw_inv bw"
  shows "bw_bits (bw_put_bit bw b) = bw_bits bw @ [bit b 0]" and "bw_inv (bw_put_bit bw b)"
proof -
  from assms have n: "nat (bits_filled bw) < 8" "0 \<le> bits_filled bw"
    by (auto simp: bw_inv_def)
  have s: "nat (bits_filled bw + 1) = Suc (nat (bits_filled bw))"
    using n by simp
  show "bw_bits (bw_put_bit bw b) = bw_bits bw @ [bit b 0]"
  proof (cases "bits_filled bw + 1 = 8")
    case True
    then have "nat (bits_filled bw) = 7" by simp
    with put_bit_cur_bits [OF n(1), of "current bw" b] True show ?thesis
      by (simp add: bw_bits_def bw_put_bit_def Let_def bits_of_bytes_Cons)
  next
    case False
    with put_bit_cur_bits [OF n(1), of "current bw" b] s show ?thesis
      by (simp add: bw_bits_def bw_put_bit_def Let_def)
  qed
  show "bw_inv (bw_put_bit bw b)"
    using assms by (auto simp: bw_inv_def bw_put_bit_def Let_def)
qed

lemma bw_put_bits_bits:
  assumes "bw_inv bw"
  shows "bw_bits (bw_put_bits bw v n) = bw_bits bw @ word_bits n v \<and> bw_inv (bw_put_bits bw v n)"
  using assms
proof (induction n arbitrary: bw)
  case 0
  then show ?case by (simp add: bw_put_bits_def)
next
  case (Suc n)
  have e: "bw_put_bits bw v (Suc n) = bw_put_bits (bw_put_bit bw (drop_bit n v AND 1)) v n"
    by (simp add: bw_put_bits_def)
  have b: "bit (drop_bit n v AND 1) 0 = bit v n"
    by (simp only: bit_and_iff bit_drop_bit_eq bit_1_iff) simp
  from bw_put_bit_bits [OF Suc.prems, of "drop_bit n v AND 1"] Suc.IH
  show ?case unfolding e b by (simp add: word_bits_Suc)
qed

lemma bw_init_bits [simp]: "bw_bits (bw_init []) = []" "bw_inv (bw_init out)"
  by (simp_all add: bw_bits_def bw_init_def bw_inv_def)

lemma bw_bits_length: "bw_inv bw \<Longrightarrow> length (bw_bits bw) = 8 * length (bytes bw) + nat (bits_filled bw)"
  by (simp add: bw_bits_def)

lemma pad_count: "n < 8 \<Longrightarrow> (8 - n) mod 8 = (if n = 0 then 0 else 8 - (n::nat))"
  by simp

lemma bw_zero_fill_bits:
  assumes "bw_inv bw"
  shows "\<exists>bw'. bw_zero_fill bw = Some bw' \<and> bits_filled bw' = 0
            \<and> bits_of_bytes (bytes bw') = bw_bits bw @ replicate ((8 - nat (bits_filled bw)) mod 8) False"
  using assms
proof (induction "(8 - nat (bits_filled bw)) mod 8" arbitrary: bw)
  case 0
  moreover from 0 have "nat (bits_filled bw) < 8" by (auto simp: bw_inv_def)
  ultimately have "bits_filled bw = 0"
    unfolding bw_inv_def by (simp add: pad_count split: if_splits)
  then show ?case using 0 by (simp add: bw_zero_fill.simps bw_bits_def)
next
  case (Suc k)
  then have nz: "bits_filled bw \<noteq> 0" by auto
  have n8: "nat (bits_filled bw) < 8" "0 \<le> bits_filled bw" using Suc.prems by (auto simp: bw_inv_def)
  have i: "bw_inv (bw_put_bit bw 0)" using Suc.prems by (rule bw_put_bit_bits)
  have bf: "bits_filled (bw_put_bit bw 0) = (if bits_filled bw = 7 then 0 else bits_filled bw + 1)"
    by (simp add: bw_put_bit_def Let_def)
  have k: "k = (8 - nat (bits_filled (bw_put_bit bw 0))) mod 8"
  proof (cases "bits_filled bw = 7")
    case True
    with Suc.hyps(2) show ?thesis unfolding bf by simp
  next
    case False
    with n8 nz have "nat (bits_filled bw + 1) < 8" "nat (bits_filled bw + 1) = Suc (nat (bits_filled bw))"
      by auto
    with Suc.hyps(2) n8 nz False show ?thesis
      unfolding bf by (simp add: pad_count split: if_splits)
  qed
  from Suc.hyps(1) [OF k i] obtain bw' where
    r: "bw_zero_fill (bw_put_bit bw 0) = Some bw'" "bits_filled bw' = 0"
       "bits_of_bytes (bytes bw') = bw_bits (bw_put_bit bw 0) @ replicate k False"
    unfolding k by blast
  have "bw_zero_fill bw = Some bw'"
    using nz r(1) by (subst bw_zero_fill.simps) simp
  moreover have "bits_of_bytes (bytes bw') = bw_bits bw @ replicate (Suc k) False"
    using r(3) bw_put_bit_bits(1) [OF Suc.prems, of 0] by simp
  ultimately show ?case using r(2) Suc.hyps(2) by simp
qed

lemma put_zero_bit_cur: "(ucast (push_bit 1 (ucast (c :: u8) :: u32) OR (0 AND 1)) :: u8) = push_bit 1 c"
  by (rule bit_word_eqI) (auto simp add: bit_simps simp del: push_bit_Suc)

lemma bw_flush_loop_eq:
  assumes "bw_inv bw"
  shows "bw_flush_loop bw = bw_zero_fill bw"
  using assms
proof (induction "(8 - nat (bits_filled bw)) mod 8" arbitrary: bw)
  case 0
  moreover from 0 have "nat (bits_filled bw) < 8" by (auto simp: bw_inv_def)
  ultimately have "bits_filled bw = 0"
    unfolding bw_inv_def by (simp add: pad_count split: if_splits)
  then show ?case by (simp add: bw_zero_fill.simps bw_flush_loop.simps)
next
  case (Suc k)
  then have nz: "bits_filled bw \<noteq> 0" by auto
  have n8: "nat (bits_filled bw) < 8" "0 \<le> bits_filled bw" using Suc.prems by (auto simp: bw_inv_def)
  have i: "bw_inv (bw_put_bit bw 0)" using Suc.prems by (rule bw_put_bit_bits)
  have p: "bw_put_bit bw 0 =
             (if bits_filled bw + 1 = 8
              then \<lparr> bytes = bytes bw @ [push_bit 1 (current bw)], current = 0, bits_filled = 0 \<rparr>
              else \<lparr> bytes = bytes bw, current = push_bit 1 (current bw), bits_filled = bits_filled bw + 1 \<rparr>)"
    unfolding bw_put_bit_def Let_def put_zero_bit_cur ..
  show ?case
  proof (cases "bits_filled bw + 1 = 8")
    case True
    have "bw_flush_loop bw = Some \<lparr> bytes = bytes bw @ [push_bit 1 (current bw)], current = 0, bits_filled = 0 \<rparr>"
      using nz True by (subst bw_flush_loop.simps) (simp add: Let_def)
    moreover have "bw_zero_fill bw = Some \<lparr> bytes = bytes bw @ [push_bit 1 (current bw)], current = 0, bits_filled = 0 \<rparr>"
      using nz True p by (subst bw_zero_fill.simps, simp, subst bw_zero_fill.simps, simp)
    ultimately show ?thesis by simp
  next
    case False
    with n8 nz have "nat (bits_filled bw + 1) < 8" "nat (bits_filled bw + 1) = Suc (nat (bits_filled bw))"
      by auto
    with Suc.hyps(2) n8 nz False p have k: "k = (8 - nat (bits_filled (bw_put_bit bw 0))) mod 8"
      by (simp add: pad_count split: if_splits)
    have "bw_flush_loop bw = bw_flush_loop (bw_put_bit bw 0)"
      using nz False p by (subst bw_flush_loop.simps) (simp add: Let_def)
    also have "\<dots> = bw_zero_fill (bw_put_bit bw 0)"
      using k i by (rule Suc.hyps(1))
    also have "\<dots> = bw_zero_fill bw"
      using nz by (subst (2) bw_zero_fill.simps) simp
    finally show ?thesis .
  qed
qed

lemma bw_flush_zero_align_bits:
  assumes "bw_inv bw"
  shows "\<exists>bw'. bw_flush_zero_align bw = Some bw' \<and> bits_filled bw' = 0
            \<and> bits_of_bytes (bytes bw') = bw_bits bw @ replicate ((8 - nat (bits_filled bw)) mod 8) False"
proof (cases "bits_filled bw > 0")
  case True
  then show ?thesis
    using bw_zero_fill_bits [OF assms] by (simp add: bw_flush_zero_align_def bw_flush_loop_eq [OF assms])
next
  case False
  with assms have "bits_filled bw = 0" by (simp add: bw_inv_def)
  then show ?thesis by (simp add: bw_flush_zero_align_def bw_bits_def)
qed

lemma pic_timing_payload_bits_bits:
  shows "bw_bits (pic_timing_payload_bits drop_frame frame seconds minutes hours include_time_offset)
     = word_bits 4 (0::u32) @ word_bits 1 (1::u32) @ word_bits 2 (0::u32) @ word_bits 1 (0::u32)
       @ word_bits 5 (0::u32) @ word_bits 1 (1::u32) @ word_bits 1 (0::u32)
       @ word_bits 1 (if drop_frame then 1 else 0 :: u32)
       @ word_bits 8 (frame AND 0xFF) @ word_bits 6 (seconds AND 0x3F)
       @ word_bits 6 (minutes AND 0x3F) @ word_bits 5 (hours AND 0x1F)
       @ (if include_time_offset then word_bits 24 (0::u32) else [])"
  and "bw_inv (pic_timing_payload_bits drop_frame frame seconds minutes hours include_time_offset)"
  unfolding pic_timing_payload_bits_def Let_def
  by (simp_all add: bw_put_bits_bits)

section \<open>Properties of the bit reader\<close>

lemma nth_word_bits: "p < n \<Longrightarrow> word_bits n w ! p = bit w (n - 1 - p)"
  by (simp add: word_bits_def rev_nth)

lemma nth_bits_of_bytes:
  "p < 8 * length data \<Longrightarrow> bits_of_bytes data ! p = bit (data ! (p div 8)) (7 - p mod 8)"
proof (induction data arbitrary: p)
  case Nil
  then show ?case by simp
next
  case (Cons b bs)
  show ?case
  proof (cases "p < 8")
    case True
    then show ?thesis
      by (simp add: bits_of_bytes_Cons nth_append nth_word_bits)
  next
    case False
    then obtain k where k: "p = k + 8" by (metis le_add_diff_inverse2 not_less)
    with Cons.prems have "k < 8 * length bs" by simp
    moreover have "(k + 8) div 8 = Suc (k div 8)" by simp
    ultimately show ?thesis
      unfolding k using Cons.IH [of k] by (simp add: bits_of_bytes_Cons nth_append)
  qed
qed

lemma nat_and_7: "(p::nat) AND 7 = p mod 8"
proof -
  have "p AND 7 = p AND mask 3" by (simp add: mask_eq_exp_minus_1)
  also have "\<dots> = take_bit 3 p" by (simp add: take_bit_eq_mask)
  also have "\<dots> = p mod 8" by (simp add: take_bit_eq_mod)
  finally show ?thesis .
qed

lemma read_bit_value:
  fixes c :: u8
  assumes "s < 8"
  shows "drop_bit s (ucast c :: u32) AND 1 = of_bool (bit c s)"
proof -
  have "drop_bit s (ucast c :: u32) AND 1 = of_bool (bit (ucast c :: u32) s)"
    by (simp add: and_one_eq bit_iff_odd_drop_bit mod_2_eq_odd)
  also have "bit (ucast c :: u32) s = bit c s"
    using assms by (simp add: bit_ucast_iff)
  finally show ?thesis .
qed

lemma br_read_bit_spec:
  assumes "p < 8 * length data"
  shows "run_state (br_read_bit data) (p, ok) = (of_bool (bits_of_bytes data ! p), (Suc p, ok))"
proof -
  have "7 - p mod 8 < 8" by simp
  from read_bit_value [OF this] show ?thesis
    using assms by (simp add: br_read_bit_def nat_and_7 drop_bit_eq_div nth_bits_of_bytes Let_def)
qed

lemma br_read_bit_fail:
  assumes "\<not> p < 8 * length data"
  shows "run_state (br_read_bit data) (p, ok) = (0, (p, False))"
  using assms by (simp add: br_read_bit_def)

lemma br_read_bits_loop_spec:
  assumes "p + n \<le> 8 * length data"
  shows "run_state (br_read_bits_loop data n val) (p, True)
           = (bits_word val (take n (drop p (bits_of_bytes data))), (p + n, True))"
  using assms
proof (induction n arbitrary: p val)
  case 0
  then show ?case by (simp add: bits_word_def)
next
  case (Suc n)
  then have p: "p < 8 * length data" "Suc p + n \<le> 8 * length data" by simp_all
  have t: "take (Suc n) (drop p (bits_of_bytes data))
             = bits_of_bytes data ! p # take n (drop (Suc p) (bits_of_bytes data))"
    using p(1) by (simp add: take_Suc_conv_app_nth Cons_nth_drop_Suc [symmetric])
  show ?case
    unfolding t using Suc.IH [OF p(2)] br_read_bit_spec [OF p(1)]
    by (simp add: br_ok_def bits_word_def)
qed

lemma br_read_bits_spec:
  assumes "p + n \<le> 8 * length data"
  shows "run_state (br_read_bits data n) (p, True)
           = (bits_word 0 (take n (drop p (bits_of_bytes data))), (p + n, True))"
  unfolding br_read_bits_def using assms by (rule br_read_bits_loop_spec)

lemma take_bit_Suc_or:
  "take_bit (Suc n) (v :: u32) = push_bit n (of_bool (bit v n)) OR take_bit n v"
  by (rule bit_word_eqI) (auto simp add: bit_simps less_Suc_eq)

lemma bits_word_word_bits_acc:
  "bits_word acc (word_bits n (v :: u32)) = push_bit n acc OR take_bit n v"
proof (induction n arbitrary: acc)
  case 0
  then show ?case by (simp add: bits_word_def)
next
  case (Suc n)
  have "bits_word acc (word_bits (Suc n) v)
          = bits_word (push_bit 1 acc OR of_bool (bit v n)) (word_bits n v)"
    by (simp add: word_bits_Suc bits_word_def)
  also have "\<dots> = push_bit n (push_bit 1 acc OR of_bool (bit v n)) OR take_bit n v"
    by (rule Suc.IH)
  also have "\<dots> = push_bit (Suc n) acc OR take_bit (Suc n) v"
    unfolding take_bit_Suc_or
    by (rule bit_word_eqI) (auto simp add: bit_simps simp del: push_bit_Suc)
  finally show ?case .
qed

lemma bits_word_word_bits: "bits_word 0 (word_bits n (v :: u32)) = take_bit n v"
  by (simp add: bits_word_word_bits_acc)

lemma and_mask_take_bit:
  "(w :: u32) AND 0xFF = take_bit 8 w" "w AND 0x3F = take_bit 6 w" "w AND 0x1F = take_bit 5 w"
proof -
  have "w AND 0xFF = w AND mask 8" "w AND 0x3F = w AND mask 6" "w AND 0x1F = w AND mask 5"
    by (simp_all add: mask_eq_exp_minus_1)
  then show "w AND 0xFF = take_bit 8 w" "w AND 0x3F = take_bit 6 w" "w AND 0x1F = take_bit 5 w"
    by (simp_all add: take_bit_eq_mask)
qed

lemma take_bit_small:
  fixes w :: u32
  assumes "unat w < 2 ^ n"
  shows "take_bit n w = w"
proof -
  have "unat (take_bit n w) = unat w"
    using assms by (simp add: unsigned_take_bit_eq take_bit_nat_eq_self)
  then show ?thesis by (simp add: word_unat_eq_iff)
qed

section \<open>Properties of the Picture Timing SEI builder\<close>

lemma epb_append_all_append:
  "epb_append_all arr (xs @ ys) = epb_append_all (epb_append_all arr xs) ys"
  by (simp add: epb_append_all_def)

lemma epb_append_all_Cons:
  "epb_append_all arr (x # xs) = epb_append_all (epb_safe_append arr x) xs"
  by (simp add: epb_append_all_def)

lemma epb_append_all_Nil [simp]: "epb_append_all arr [] = arr"
  by (simp add: epb_append_all_def)

lemma last_epb_safe_append [simp]: "last (epb_safe_append arr b) = b"
  by (simp add: epb_safe_append_def Let_def)

lemma one_bit_over: "8 * a + b = 8 * k + 1 \<Longrightarrow> b < 8 \<Longrightarrow> b = (1::nat)"
  by arith

lemma payload_length_from_bits:
  assumes "bw_inv w" and "length (bw_bits w) = 8 * k + 1"
    and "bw_flush_zero_align w = Some w'"
    and "bits_of_bytes (bytes w') = bw_bits w @ replicate ((8 - nat (bits_filled w)) mod 8) False"
  shows "length (bytes w') = Suc k" and "bits_of_bytes (bytes w') = bw_bits w @ replicate 7 False"
proof -
  have "8 * length (bytes w) + nat (bits_filled w) = 8 * k + 1"
    using assms(1,2) by (simp add: bw_bits_length)
  moreover have "nat (bits_filled w) < 8" using assms(1) by (auto simp: bw_inv_def)
  ultimately have bf: "nat (bits_filled w) = 1" by (rule one_bit_over)
  then show b: "bits_of_bytes (bytes w') = bw_bits w @ replicate 7 False"
    using assms(4) by simp
  have "length (bits_of_bytes (bytes w')) = 8 * k + 8"
    unfolding b using assms(2) by simp
  then show "length (bytes w') = Suc k" by simp
qed

lemma build_pic_timing_sei_nal_shape:
  fixes drop_frame frame seconds minutes hours include_time_offset
  defines "w \<equiv> pic_timing_payload_bits drop_frame frame seconds minutes hours include_time_offset"
  defines "n \<equiv> (if include_time_offset then 9 else 6 :: u8)"
  shows "\<exists>payload e.
           build_pic_timing_sei_nal drop_frame frame seconds minutes hours include_time_offset
             = Some ([0x00, 0x00, 0x00, 0x01, 0x06, 0x01, n] @ e)
         \<and> last ([0x00, 0x00, 0x00, 0x01, 0x06, 0x01, n] @ e) = 0x80
         \<and> (\<forall>r. ebsp_to_rbsp_loop e 0 r = r @ payload @ [0x80])
         \<and> length payload = unat n
         \<and> bits_of_bytes payload = bw_bits w @ replicate 7 False"
proof -
  have inv: "bw_inv w" unfolding w_def by (rule pic_timing_payload_bits_bits(2))
  have len: "length (bw_bits w) = 8 * (if include_time_offset then 8 else 5) + 1"
    unfolding w_def by (simp add: pic_timing_payload_bits_bits)
  from bw_flush_zero_align_bits [OF inv] obtain w' where
    w': "bw_flush_zero_align w = Some w'"
        "bits_of_bytes (bytes w') = bw_bits w @ replicate ((8 - nat (bits_filled w)) mod 8) False"
    by blast
  note pl = payload_length_from_bits [OF inv len w']
  define payload where "payload = bytes w'"
  have plen: "length payload = unat n"
    using pl(1) by (simp add: payload_def n_def)
  have n0: "n \<noteq> 0" "\<not> n \<le> 3" by (auto simp: n_def)
  have sz: "put_payload_size [0x00, 0x00, 0x00, 0x01, 0x06, 0x01] (of_nat (length payload))
              = [0x00, 0x00, 0x00, 0x01, 0x06, 0x01, n]"
    unfolding plen
    by (subst put_payload_size.simps) (simp add: n_def epb_safe_append_def)
  have b: "build_pic_timing_sei_nal drop_frame frame seconds minutes hours include_time_offset
             = Some (epb_safe_append (epb_append_all [0x00, 0x00, 0x00, 0x01, 0x06, 0x01, n] payload) 0x80)"
    using w'(1) sz
    by (simp add: build_pic_timing_sei_nal_def w_def [symmetric] payload_def [symmetric] Let_def
          epb_safe_append_def)
  have all: "epb_safe_append (epb_append_all [0x00, 0x00, 0x00, 0x01, 0x06, 0x01, n] payload) 0x80
               = epb_append_all [0x00, 0x00, 0x00, 0x01, 0x06, 0x01, n] (payload @ [0x80])"
    by (simp add: epb_append_all_append epb_append_all_Cons)
  have "epb_sync [0x00, 0x00, 0x00, 0x01, 0x06, 0x01, n] 0"
    using n0 by (simp add: epb_sync_def)
  from epb_append_all_decodes [OF this, of "payload @ [0x80]"] obtain e where
    e: "epb_append_all [0x00, 0x00, 0x00, 0x01, 0x06, 0x01, n] (payload @ [0x80])
          = [0x00, 0x00, 0x00, 0x01, 0x06, 0x01, n] @ e"
       "\<And>r. ebsp_to_rbsp_loop e 0 r = r @ payload @ [0x80]"
    by auto
  have l: "last ([0x00, 0x00, 0x00, 0x01, 0x06, 0x01, n] @ e) = 0x80"
    unfolding e(1) [symmetric] all [symmetric] by simp
  from b all e l plen pl(2) show ?thesis
    unfolding payload_def by auto
qed

text \<open>
  C9. For every timecode input, \<open>build_pic_timing_sei_nal\<close> returns a NAL that begins
  with the bytes \<open>00 00 00 01 06 01\<close>; its payload size byte is exactly 6 when
  \<open>time_offset\<close> is omitted and exactly 9 when the 24-bit \<open>time_offset\<close> is included;
  the RBSP behind the start code is the header, the type, the size, a payload of exactly
  that many bytes and the byte \<open>80\<close>; and the NAL ends with the byte \<open>80\<close>.
\<close>

theorem pic_timing_sei_nal_framing:
  "\<exists>sei payload.
      build_pic_timing_sei_nal drop_frame frame seconds minutes hours include_time_offset = Some sei
    \<and> take 6 sei = [0x00, 0x00, 0x00, 0x01, 0x06, 0x01]
    \<and> sei ! 6 = (if include_time_offset then 9 else 6)
    \<and> last sei = 0x80
    \<and> ebsp_to_rbsp (drop 4 sei)
          = [0x06, 0x01, if include_time_offset then 9 else 6] @ payload @ [0x80]
    \<and> length payload = (if include_time_offset then 9 else 6)"
proof -
  define n :: u8 where "n = (if include_time_offset then 9 else 6)"
  from build_pic_timing_sei_nal_shape [of drop_frame frame seconds minutes hours include_time_offset]
  obtain payload e where
    s: "build_pic_timing_sei_nal drop_frame frame seconds minutes hours include_time_offset
          = Some ([0x00, 0x00, 0x00, 0x01, 0x06, 0x01, n] @ e)"
       "last ([0x00, 0x00, 0x00, 0x01, 0x06, 0x01, n] @ e) = 0x80"
       "\<And>r. ebsp_to_rbsp_loop e 0 r = r @ payload @ [0x80]"
       "length payload = unat n"
    unfolding n_def by blast
  have n0: "n \<noteq> 0" "n \<noteq> 3" by (auto simp: n_def)
  have d: "ebsp_to_rbsp (drop 4 ([0x00, 0x00, 0x00, 0x01, 0x06, 0x01, n] @ e))
         = [0x06, 0x01, n] @ payload @ [0x80]"
    using s(3) n0 by (simp add: ebsp_to_rbsp_def)
  have "take 6 ([0x00, 0x00, 0x00, 0x01, 0x06, 0x01, n] @ e) = [0x00, 0x00, 0x00, 0x01, 0x06, 0x01]"
       "([0x00, 0x00, 0x00, 0x01, 0x06, 0x01, n] @ e) ! 6 = n"
    by simp_all
  with s d have "build_pic_timing_sei_nal drop_frame frame seconds minutes hours include_time_offset
          = Some ([0x00, 0x00, 0x00, 0x01, 0x06, 0x01, n] @ e)
    \<and> take 6 ([0x00, 0x00, 0x00, 0x01, 0x06, 0x01, n] @ e) = [0x00, 0x00, 0x00, 0x01, 0x06, 0x01]
    \<and> ([0x00, 0x00, 0x00, 0x01, 0x06, 0x01, n] @ e) ! 6 = n
    \<and> last ([0x00, 0x00, 0x00, 0x01, 0x06, 0x01, n] @ e) = 0x80
    \<and> ebsp_to_rbsp (drop 4 ([0x00, 0x00, 0x00, 0x01, 0x06, 0x01, n] @ e))
          = [0x06, 0x01, n] @ payload @ [0x80]
    \<and> length payload = unat n"
    by blast
  moreover have "unat n = (if include_time_offset then 9 else 6)" by (simp add: n_def)
  ultimately show ?thesis unfolding n_def by metis
qed

lemma word_bits_zero: "word_bits n (0 :: 'a::len word) = replicate n False"
  by (induction n) (simp_all add: word_bits_Suc)

text \<open>
  The bits written for the payload are the 41 bits of the fixed fields, followed by the
  \<open>time_offset\<close> field when \<open>cpb_dpb_delays_present_flag\<close> is set and
  \<open>time_offset_length > 0\<close>, and by nothing otherwise. The field is 24 zero bits; the
  value of \<open>time_offset_length\<close> does not enter its width. The infos that the rewriter
  passes have been through \<open>clear_hrd\<close>, and for them the field is never written.
\<close>

lemma time_offset_field_bits:
  "bw_bits (pic_timing_payload_bits drop_frame frame seconds minutes hours (include_time_offset_of info))
     = bw_bits (pic_timing_payload_bits drop_frame frame seconds minutes hours False)
       @ (if cpb_dpb_delays_present_flag info \<and> time_offset_length info > 0
          then replicate 24 False else [])"
  and "length (bw_bits (pic_timing_payload_bits drop_frame frame seconds minutes hours False)) = 41"
  and "build_pic_timing_sei_nal_from_sps info drop_frame frame seconds minutes hours
       = build_pic_timing_sei_nal drop_frame frame seconds minutes hours
           (cpb_dpb_delays_present_flag info \<and> time_offset_length info > 0)"
  by (simp_all add: pic_timing_payload_bits_bits(1) include_time_offset_of_def word_bits_zero
        build_pic_timing_sei_nal_from_sps_def)

lemma clear_hrd_no_time_offset: "\<not> include_time_offset_of (clear_hrd info)"
  by (simp add: include_time_offset_of_def clear_hrd_def)


lemma word_bits_ucast_u8: "n \<le> 8 \<Longrightarrow> word_bits n (b :: u8) = word_bits n (ucast b :: u32)"
  by (simp add: word_bits_def bit_ucast_iff)

lemma read_pic_timing_of_bits:
  fixes pt ps a b c d e f g h i j k l :: u32
  assumes "bits_of_bytes rbsp
             = word_bits 8 pt @ word_bits 8 ps @ word_bits 4 a @ word_bits 1 b @ word_bits 2 c
               @ word_bits 1 d @ word_bits 5 e @ word_bits 1 f @ word_bits 1 g @ word_bits 1 h
               @ word_bits 8 i @ word_bits 6 j @ word_bits 6 k @ word_bits 5 l @ rest"
  shows "run_state (read_pic_timing rbsp) (0, True)
           = (\<lparr> payload_type = take_bit 8 pt, payload_size = take_bit 8 ps,
                pic_struct = take_bit 4 a, clock_timestamp_flag = take_bit 1 b,
                ct_type = take_bit 2 c, nuit_field_based_flag = take_bit 1 d,
                counting_type = take_bit 5 e, full_timestamp_flag = take_bit 1 f,
                discontinuity_flag = take_bit 1 g, cnt_dropped_flag = take_bit 1 h,
                n_frames = take_bit 8 i, seconds_value = take_bit 6 j,
                minutes_value = take_bit 6 k, hours_value = take_bit 5 l \<rparr>, (57, True))"
proof -
  have "length (bits_of_bytes rbsp) = 57 + length rest"
    unfolding assms by simp
  then have len: "57 \<le> 8 * length rbsp" by simp
  show ?thesis
    unfolding read_pic_timing_def
    using len by (simp add: br_read_bits_spec assms bits_word_word_bits)
qed

text \<open>
  C2. For every timecode with hours in \<open>0..23\<close>, minutes in \<open>0..59\<close>, seconds in
  \<open>0..59\<close>, frames in \<open>0..255\<close>, and every drop-frame flag: the SEI NAL is built, and
  reading it back yields a Picture Timing message (\<open>payloadType = 1\<close>) whose
  \<open>n_frames\<close>, \<open>seconds_value\<close>, \<open>minutes_value\<close> and \<open>hours_value\<close> are the source
  timecode, with \<open>full_timestamp_flag = 1\<close> and \<open>cnt_dropped_flag\<close> equal to the
  drop-frame flag.
\<close>

theorem pic_timing_sei_round_trip:
  assumes "unat hours \<le> 23" and "unat minutes \<le> 59" and "unat seconds \<le> 59"
    and "unat frame \<le> 255"
  shows "\<exists>sei.
      build_pic_timing_sei_nal drop_frame frame seconds minutes hours include_time_offset = Some sei
    \<and> decode_pic_timing_sei_nal sei
        = Some \<lparr> payload_type = 1, payload_size = (if include_time_offset then 9 else 6),
                 pic_struct = 0, clock_timestamp_flag = 1, ct_type = 0,
                 nuit_field_based_flag = 0, counting_type = 0, full_timestamp_flag = 1,
                 discontinuity_flag = 0, cnt_dropped_flag = (if drop_frame then 1 else 0),
                 n_frames = frame, seconds_value = seconds, minutes_value = minutes,
                 hours_value = hours \<rparr>"
proof -
  define n :: u8 where "n = (if include_time_offset then 9 else 6)"
  from build_pic_timing_sei_nal_shape [of drop_frame frame seconds minutes hours include_time_offset]
  obtain payload e where
    s: "build_pic_timing_sei_nal drop_frame frame seconds minutes hours include_time_offset
          = Some ([0x00, 0x00, 0x00, 0x01, 0x06, 0x01, n] @ e)"
       "\<And>r. ebsp_to_rbsp_loop e 0 r = r @ payload @ [0x80]"
       "bits_of_bytes payload
          = bw_bits (pic_timing_payload_bits drop_frame frame seconds minutes hours include_time_offset)
            @ replicate 7 False"
    unfolding n_def by blast
  let ?sei = "[0x00, 0x00, 0x00, 0x01, 0x06, 0x01, n] @ e"
  let ?rbsp = "[0x01, n] @ payload @ [0x80]"
  have n0: "n \<noteq> 0" "n \<noteq> 3" by (auto simp: n_def)
  have rbsp: "ebsp_to_rbsp (drop 5 ?sei) = ?rbsp"
    using s(2) n0 by (simp add: ebsp_to_rbsp_def)
  have bits: "bits_of_bytes ?rbsp
      = word_bits 8 (1 :: u32) @ word_bits 8 (ucast n :: u32)
        @ word_bits 4 (0::u32) @ word_bits 1 (1::u32) @ word_bits 2 (0::u32) @ word_bits 1 (0::u32)
        @ word_bits 5 (0::u32) @ word_bits 1 (1::u32) @ word_bits 1 (0::u32)
        @ word_bits 1 (if drop_frame then 1 else 0 :: u32)
        @ word_bits 8 (frame AND 0xFF) @ word_bits 6 (seconds AND 0x3F)
        @ word_bits 6 (minutes AND 0x3F) @ word_bits 5 (hours AND 0x1F)
        @ ((if include_time_offset then word_bits 24 (0::u32) else []) @ replicate 7 False
           @ word_bits 8 (0x80 :: u8))"
    by (simp add: bits_of_bytes_Cons s(3) pic_timing_payload_bits_bits(1)
          word_bits_ucast_u8 [of 8 1] word_bits_ucast_u8 [of 8 n])
  have fields: "take_bit 8 (frame AND 0xFF) = frame" "take_bit 6 (seconds AND 0x3F) = seconds"
    "take_bit 6 (minutes AND 0x3F) = minutes" "take_bit 5 (hours AND 0x1F) = hours"
    using assms by (simp_all add: and_mask_take_bit take_bit_small)
  have cvals: "take_bit 8 (ucast n :: u32) = (if include_time_offset then 9 else 6)"
    "take_bit 1 (if drop_frame then 1 else 0 :: u32) = (if drop_frame then 1 else 0)"
    by (simp_all add: n_def)
  have "decode_pic_timing_sei_nal ?sei
        = Some \<lparr> payload_type = 1, payload_size = (if include_time_offset then 9 else 6),
                 pic_struct = 0, clock_timestamp_flag = 1, ct_type = 0,
                 nuit_field_based_flag = 0, counting_type = 0, full_timestamp_flag = 1,
                 discontinuity_flag = 0, cnt_dropped_flag = (if drop_frame then 1 else 0),
                 n_frames = frame, seconds_value = seconds, minutes_value = minutes,
                 hours_value = hours \<rparr>"
    unfolding decode_pic_timing_sei_nal_def rbsp read_pic_timing_of_bits [OF bits] fields cvals
    by simp
  with s(1) show ?thesis by blast
qed

theorem pic_timing_sei_round_trip_witness:
  "unat (1 :: u32) \<le> 23 \<and> unat (2 :: u32) \<le> 59 \<and> unat (3 :: u32) \<le> 59 \<and> unat (4 :: u32) \<le> 255
   \<and> build_pic_timing_sei_nal False 4 3 2 1 False
       = Some [0x00, 0x00, 0x00, 0x01, 0x06, 0x01, 0x06, 0x08, 0x04, 0x04, 0x0C, 0x20, 0x80, 0x80]
   \<and> decode_pic_timing_sei_nal
         [0x00, 0x00, 0x00, 0x01, 0x06, 0x01, 0x06, 0x08, 0x04, 0x04, 0x0C, 0x20, 0x80, 0x80]
       = Some \<lparr> payload_type = 1, payload_size = 6,
                 pic_struct = 0, clock_timestamp_flag = 1, ct_type = 0,
                 nuit_field_based_flag = 0, counting_type = 0, full_timestamp_flag = 1,
                 discontinuity_flag = 0, cnt_dropped_flag = 0,
                 n_frames = 4, seconds_value = 3, minutes_value = 2, hours_value = 1 \<rparr>"
proof -
  have h: "unat (1 :: u32) \<le> 23" "unat (2 :: u32) \<le> 59" "unat (3 :: u32) \<le> 59" "unat (4 :: u32) \<le> 255"
    by simp_all
  have b: "build_pic_timing_sei_nal False 4 3 2 1 False
       = Some [0x00, 0x00, 0x00, 0x01, 0x06, 0x01, 0x06, 0x08, 0x04, 0x04, 0x0C, 0x20, 0x80, 0x80]"
    by code_simp
  from pic_timing_sei_round_trip [OF h, of False False] b h show ?thesis
    by simp
qed

section \<open>Properties of the access unit rewriter\<close>

lemma build_pic_timing_sei_nal_Some:
  "\<exists>sei. build_pic_timing_sei_nal d f s m h i = Some sei \<and> sei \<noteq> []"
  using build_pic_timing_sei_nal_shape [of d f s m h i] by auto

lemma build_pic_timing_sei_nal_from_sps_Some:
  "\<exists>sei. build_pic_timing_sei_nal_from_sps info d f s m h = Some sei \<and> sei \<noteq> []"
  unfolding build_pic_timing_sei_nal_from_sps_def by (rule build_pic_timing_sei_nal_Some)

lemma extract_no_startcode:
  assumes "find_startcode annexb (int (length annexb)) 0 < 0"
  shows "extract_sps_vui_from_au annexb = Some (False, zero_sps_info)"
  unfolding extract_sps_vui_from_au_def
  using assms by (subst extract_sps_vui_loop.simps) (simp add: Let_def)

lemma build_sei_for_au_not_found:
  assumes "sps_map_ok env \<longrightarrow> extract_sps_vui_from_au data = Some (False, info)"
  shows "\<exists>sei g'. build_sei_for_au env g data tc = Some (sei, g')
           \<and> g_patched_sps_ebsp g' = g_patched_sps_ebsp g
           \<and> g_last_sps_valid g' = g_last_sps_valid g"
proof -
  obtain sei1 where s1: "build_pic_timing_sei_nal_from_sps (clear_hrd (g_last_sps_info g))
      (t_drop_frame tc) (t_frame tc) (t_seconds tc) (t_minutes tc) (t_hours tc) = Some sei1"
    using build_pic_timing_sei_nal_from_sps_Some by blast
  obtain sei2 where s2: "build_pic_timing_sei_nal_from_sps zero_sps_info
      (t_drop_frame tc) (t_frame tc) (t_seconds tc) (t_minutes tc) (t_hours tc) = Some sei2"
    using build_pic_timing_sei_nal_from_sps_Some by blast
  show ?thesis
    using assms s1 s2 by (cases "sps_map_ok env") (auto simp: build_sei_for_au_def Let_def)
qed

text \<open>
  C7. For every input buffer, configuration, state of the static variables and outcome of
  the framework calls: if no Annex B start code is found in the buffer, or if no timecode
  can be obtained (no attached timecode, and \<open>prefer_pts\<close> unset or no valid PTS), the
  rewriter returns the input buffer itself, and the cached patched SPS and the validity
  of the cached SPS info are as before, so that nothing is injected for that buffer.
\<close>

theorem passthrough_without_startcode_or_timecode:
  assumes "find_startcode (buf_data inbuf) (int (length (buf_data inbuf))) 0 < 0
         \<or> (buf_tcmeta inbuf = None \<and> \<not> (prefer_pts scfg \<and> GST_BUFFER_PTS_IS_VALID inbuf))"
  shows "\<exists>scfg' g'.
           prepend_h264_sei_timecode have_flag_macro env scfg g inbuf = Some (inbuf, scfg', g')
         \<and> g_patched_sps_ebsp g' = g_patched_sps_ebsp g
         \<and> g_last_sps_valid g' = g_last_sps_valid g"
proof (cases "have_tc (fst (obtain_timecode have_flag_macro scfg inbuf))")
  case False
  obtain tc scfg1 where o: "obtain_timecode have_flag_macro scfg inbuf = (tc, scfg1)"
    by (cases "obtain_timecode have_flag_macro scfg inbuf")
  with False show ?thesis
    by (simp add: prepend_h264_sei_timecode_def)
next
  case True
  then have "\<not> (buf_tcmeta inbuf = None \<and> \<not> (prefer_pts scfg \<and> GST_BUFFER_PTS_IS_VALID inbuf))"
    by (auto simp: obtain_timecode_def no_timecode_def split: if_splits)
  with assms have ns: "find_startcode (buf_data inbuf) (int (length (buf_data inbuf))) 0 < 0"
    by blast
  obtain tc scfg1 where o: "obtain_timecode have_flag_macro scfg inbuf = (tc, scfg1)"
    by (cases "obtain_timecode have_flag_macro scfg inbuf")
  with True have tc: "have_tc tc" by simp
  from build_sei_for_au_not_found [of env "buf_data inbuf" zero_sps_info g tc] extract_no_startcode [OF ns]
  obtain sei g1 where b: "build_sei_for_au env g (buf_data inbuf) tc = Some (sei, g1)"
    "g_patched_sps_ebsp g1 = g_patched_sps_ebsp g" "g_last_sps_valid g1 = g_last_sps_valid g"
    by blast
  have "prepend_h264_sei_timecode have_flag_macro env scfg g inbuf
          = Some (inbuf, scfg1, (if in_map_ok env then g1\<lparr> g_patched_sps_ebsp := g_patched_sps_ebsp g1 \<rparr> else g1))"
    using o tc b(1) ns by (simp add: prepend_h264_sei_timecode_def Let_def)
  with b(2,3) show ?thesis by auto
qed

theorem passthrough_without_startcode_or_timecode_witness:
  "find_startcode [0x00, 0x00, 0x01] (int (length [0x00, 0x00, 0x01 :: u8])) 0 < 0
   \<and> (\<exists>scfg' g'.
         prepend_h264_sei_timecode False env_ok
           \<lparr> inject_sei = True, fps_n = 25, fps_d = 1, prefer_pts = True, verbose = False,
             last_pts_ns = 0, last_sec = 0, est_fps = 0 \<rparr>
           initial_globals
           \<lparr> buf_data = [0x00, 0x00, 0x01], buf_pts = 0,
             buf_tcmeta = Some \<lparr> tc_hours = 1, tc_minutes = 2, tc_seconds = 3, tc_frames = 4,
                                  tc_flags_drop_frame = False \<rparr> \<rparr>
         = Some (\<lparr> buf_data = [0x00, 0x00, 0x01], buf_pts = 0,
                   buf_tcmeta = Some \<lparr> tc_hours = 1, tc_minutes = 2, tc_seconds = 3,
                                        tc_frames = 4, tc_flags_drop_frame = False \<rparr> \<rparr>,
                 scfg', g')
       \<and> g_patched_sps_ebsp g' = None)
   \<and> \<not> (prefer_pts
           \<lparr> inject_sei = True, fps_n = 25, fps_d = 1, prefer_pts = False, verbose = False,
             last_pts_ns = 0, last_sec = 0, est_fps = 0 \<rparr>
         \<and> GST_BUFFER_PTS_IS_VALID
              \<lparr> buf_data = [0x00, 0x00, 0x01, 0x65, 0x88], buf_pts = 40000000, buf_tcmeta = None \<rparr>)
   \<and> (\<exists>scfg' g'.
         prepend_h264_sei_timecode False env_ok
           \<lparr> inject_sei = True, fps_n = 25, fps_d = 1, prefer_pts = False, verbose = False,
             last_pts_ns = 0, last_sec = 0, est_fps = 0 \<rparr>
           initial_globals
           \<lparr> buf_data = [0x00, 0x00, 0x01, 0x65, 0x88], buf_pts = 40000000, buf_tcmeta = None \<rparr>
         = Some (\<lparr> buf_data = [0x00, 0x00, 0x01, 0x65, 0x88], buf_pts = 40000000,
                   buf_tcmeta = None \<rparr>, scfg', g')
       \<and> g_patched_sps_ebsp g' = None)"
proof -
  let ?c1 = "\<lparr> inject_sei = True, fps_n = 25, fps_d = 1, prefer_pts = True, verbose = False,
             last_pts_ns = 0, last_sec = 0, est_fps = 0 \<rparr>"
  let ?c2 = "\<lparr> inject_sei = True, fps_n = 25, fps_d = 1, prefer_pts = False, verbose = False,
             last_pts_ns = 0, last_sec = 0, est_fps = 0 \<rparr>"
  let ?b1 = "\<lparr> buf_data = [0x00, 0x00, 0x01], buf_pts = 0,
             buf_tcmeta = Some \<lparr> tc_hours = 1, tc_minutes = 2, tc_seconds = 3, tc_frames = 4,
                                  tc_flags_drop_frame = False \<rparr> \<rparr>"
  let ?b2 = "\<lparr> buf_data = [0x00, 0x00, 0x01, 0x65, 0x88], buf_pts = 40000000, buf_tcmeta = None \<rparr>"
  have f: "find_startcode [0x00, 0x00, 0x01] (int (length [0x00, 0x00, 0x01 :: u8])) 0 < 0"
    by (simp add: find_startcode.simps)
  then have h1: "find_startcode (buf_data ?b1) (int (length (buf_data ?b1))) 0 < 0
         \<or> (buf_tcmeta ?b1 = None \<and> \<not> (prefer_pts ?c1 \<and> GST_BUFFER_PTS_IS_VALID ?b1))"
    by simp
  have n: "\<not> (prefer_pts ?c2 \<and> GST_BUFFER_PTS_IS_VALID ?b2)" by simp
  then have h2: "find_startcode (buf_data ?b2) (int (length (buf_data ?b2))) 0 < 0
         \<or> (buf_tcmeta ?b2 = None \<and> \<not> (prefer_pts ?c2 \<and> GST_BUFFER_PTS_IS_VALID ?b2))"
    by simp
  have g: "g_patched_sps_ebsp initial_globals = None" by (simp add: initial_globals_def)
  from passthrough_without_startcode_or_timecode [OF h1, of False env_ok initial_globals]
  have r1: "\<exists>scfg' g'. prepend_h264_sei_timecode False env_ok ?c1 initial_globals ?b1
              = Some (?b1, scfg', g') \<and> g_patched_sps_ebsp g' = None"
    unfolding g by blast
  from passthrough_without_startcode_or_timecode [OF h2, of False env_ok initial_globals]
  have r2: "\<exists>scfg' g'. prepend_h264_sei_timecode False env_ok ?c2 initial_globals ?b2
              = Some (?b2, scfg', g') \<and> g_patched_sps_ebsp g' = None"
    unfolding g by blast
  from f n r1 r2 show ?thesis by blast
qed

text \<open>
  C4, evaluated at an access unit \<open>[slice][AUD][slice]\<close> with an attached timecode, whose
  type-9 NAL unit is not the first one: the rewriter returns \<open>[slice][AUD][SEI][slice]\<close>.
  The SEI is inserted behind the AUD and not in front of the access unit.
\<close>

theorem aud_not_first_eval:
  "map_option (\<lambda>r. buf_data (fst r))
     (prepend_h264_sei_timecode False env_ok
        \<lparr> inject_sei = True, fps_n = 25, fps_d = 1, prefer_pts = True, verbose = False,
          last_pts_ns = 0, last_sec = 0, est_fps = 0 \<rparr>
        initial_globals
        \<lparr> buf_data = [0x00, 0x00, 0x01, 0x41, 0xAA, 0x00, 0x00, 0x01, 0x09, 0xF0,
                      0x00, 0x00, 0x01, 0x41, 0xBB],
          buf_pts = 0,
          buf_tcmeta = Some \<lparr> tc_hours = 1, tc_minutes = 2, tc_seconds = 3, tc_frames = 4,
                               tc_flags_drop_frame = False \<rparr> \<rparr>)
   = Some ([0x00, 0x00, 0x01, 0x41, 0xAA, 0x00, 0x00, 0x01, 0x09, 0xF0]
           @ [0x00, 0x00, 0x00, 0x01, 0x06, 0x01, 0x06, 0x08, 0x04, 0x04, 0x0C, 0x20, 0x80, 0x80]
           @ [0x00, 0x00, 0x01, 0x41, 0xBB])"
  by code_simp

text \<open>
  C5, evaluated at an access unit \<open>[SPS][AUD][IDR]\<close> with an attached timecode, from the
  initial state: the rewriter returns \<open>[SPS][AUD][patched SPS][SEI][IDR]\<close>, a buffer with
  two NAL units of type 7 (the claim allows one at most). The original SPS is copied with
  the bytes up to the end of the AUD.
\<close>

theorem sps_before_aud_eval:
  "Option.bind
     (prepend_h264_sei_timecode False env_ok
        \<lparr> inject_sei = True, fps_n = 25, fps_d = 1, prefer_pts = True, verbose = False,
          last_pts_ns = 0, last_sec = 0, est_fps = 0 \<rparr>
        initial_globals
        \<lparr> buf_data = [0x00, 0x00, 0x00, 0x01, 0x67, 0x42, 0xC0, 0x1E, 0xD9, 0x00, 0xA0, 0x47, 0xFE, 0x88,
                      0x00, 0x00, 0x00, 0x01, 0x09, 0xF0,
                      0x00, 0x00, 0x00, 0x01, 0x65, 0x88, 0x80],
          buf_pts = 0,
          buf_tcmeta = Some \<lparr> tc_hours = 1, tc_minutes = 2, tc_seconds = 3, tc_frames = 4,
                               tc_flags_drop_frame = False \<rparr> \<rparr>)
     (\<lambda>r. map_option (\<lambda>ts. (buf_data (fst r), ts)) (nal_types (buf_data (fst r))))
   = Some ([0x00, 0x00, 0x00, 0x01, 0x67, 0x42, 0xC0, 0x1E, 0xD9, 0x00, 0xA0, 0x47, 0xFE, 0x88]
           @ [0x00, 0x00, 0x00, 0x01, 0x09, 0xF0]
           @ [0x00, 0x00, 0x00, 0x01, 0x67, 0x42, 0xC0, 0x1E, 0xD9, 0x00, 0xA0, 0x47, 0xF8,
              0x40, 0x00, 0x00, 0x03, 0x00, 0x40, 0x00, 0x00, 0x0C, 0xA5]
           @ [0x00, 0x00, 0x00, 0x01, 0x06, 0x01, 0x06, 0x08, 0x04, 0x04, 0x0C, 0x20, 0x80, 0x80]
           @ [0x00, 0x00, 0x00, 0x01, 0x65, 0x88, 0x80],
           [7, 9, 7, 6, 5])"
  by code_simp

text \<open>
  C1, evaluated at a well-formed High-profile SPS (320x240, timing 1001/60000) whose
  scaling lists 1 and 5 are present and end after one delta (\<open>delta_scale = -8\<close>, the
  default list): the parser reads it without failure, \<open>patch_sps_pic_struct_and_timing\<close>
  with \<open>fps_n = 25\<close>, \<open>fps_d = 1\<close> returns a NAL, and parsing that NAL yields
  \<open>pic_struct_present_flag = 0\<close>, \<open>time_scale = 60000\<close> and \<open>num_units_in_tick = 1001\<close>
  (the claim promises \<open>1\<close>, \<open>50\<close> and \<open>1\<close>). The patcher skipped 16 exp-Golomb values for
  each list and placed the new VUI behind the old one.
\<close>

theorem patched_sps_scaling_list_eval:
  "patch_sps_pic_struct_and_timing
     [0x64, 0x00, 0x1F, 0xAD, 0x42, 0x22, 0x11, 0x39, 0x01, 0x41, 0xFA, 0x10, 0x00, 0x00, 0x3E,
      0x90, 0x00, 0x0E, 0xA6, 0x08, 0x40] 0x67 25 1
   = Some (Some [0x00, 0x00, 0x00, 0x01, 0x67, 0x64, 0x00, 0x1F, 0xAD, 0x42, 0x22, 0x11, 0x39,
                 0x01, 0x41, 0xFA, 0x10, 0x00, 0x00, 0x3E, 0x90, 0x00, 0x0E, 0xA6, 0x08, 0x48,
                 0x40, 0x00, 0x00, 0x03, 0x00, 0x40, 0x00, 0x00, 0x0C, 0xA5])
   \<and> sps_from_annexb
        [0x00, 0x00, 0x00, 0x01, 0x67, 0x64, 0x00, 0x1F, 0xAD, 0x42, 0x22, 0x11, 0x39,
         0x01, 0x41, 0xFA, 0x10, 0x00, 0x00, 0x3E, 0x90, 0x00, 0x0E, 0xA6, 0x08, 0x48,
         0x40, 0x00, 0x00, 0x03, 0x00, 0x40, 0x00, 0x00, 0x0C, 0xA5]
     = Some (True,
         \<lparr> vui_present = True, pic_struct_present_flag = False,
           cpb_dpb_delays_present_flag = False, cpb_removal_delay_length = 24,
           dpb_output_delay_length = 24, time_offset_length = 0,
           timing_info_present_flag = True, num_units_in_tick = 1001, time_scale = 60000,
           fixed_frame_rate_flag = True \<rparr>)
   \<and> fst (the (parse_sps_vui_info_from_rbsp
        [0x64, 0x00, 0x1F, 0xAD, 0x42, 0x22, 0x11, 0x39, 0x01, 0x41, 0xFA, 0x10, 0x00, 0x00, 0x3E,
         0x90, 0x00, 0x0E, 0xA6, 0x08, 0x40]))"
proof -
  have a: "patch_sps_pic_struct_and_timing
     [0x64, 0x00, 0x1F, 0xAD, 0x42, 0x22, 0x11, 0x39, 0x01, 0x41, 0xFA, 0x10, 0x00, 0x00, 0x3E,
      0x90, 0x00, 0x0E, 0xA6, 0x08, 0x40] 0x67 25 1
   = Some (Some [0x00, 0x00, 0x00, 0x01, 0x67, 0x64, 0x00, 0x1F, 0xAD, 0x42, 0x22, 0x11, 0x39,
                 0x01, 0x41, 0xFA, 0x10, 0x00, 0x00, 0x3E, 0x90, 0x00, 0x0E, 0xA6, 0x08, 0x48,
                 0x40, 0x00, 0x00, 0x03, 0x00, 0x40, 0x00, 0x00, 0x0C, 0xA5])"
    by code_simp
  have b: "sps_from_annexb
        [0x00, 0x00, 0x00, 0x01, 0x67, 0x64, 0x00, 0x1F, 0xAD, 0x42, 0x22, 0x11, 0x39,
         0x01, 0x41, 0xFA, 0x10, 0x00, 0x00, 0x3E, 0x90, 0x00, 0x0E, 0xA6, 0x08, 0x48,
         0x40, 0x00, 0x00, 0x03, 0x00, 0x40, 0x00, 0x00, 0x0C, 0xA5]
     = Some (True,
         \<lparr> vui_present = True, pic_struct_present_flag = False,
           cpb_dpb_delays_present_flag = False, cpb_removal_delay_length = 24,
           dpb_output_delay_length = 24, time_offset_length = 0,
           timing_info_present_flag = True, num_units_in_tick = 1001, time_scale = 60000,
           fixed_frame_rate_flag = True \<rparr>)"
    by code_simp
  have c: "fst (the (parse_sps_vui_info_from_rbsp
        [0x64, 0x00, 0x1F, 0xAD, 0x42, 0x22, 0x11, 0x39, 0x01, 0x41, 0xFA, 0x10, 0x00, 0x00, 0x3E,
         0x90, 0x00, 0x0E, 0xA6, 0x08, 0x40]))"
    by code_simp
  from a b c show ?thesis by blast
qed

end
